theory Spec2Isabelle
  imports Complex_Main
begin

section \<open>Character data model\<close>

text \<open>
  The \<^verbatim>\<open>Character\<close> interface of \<^verbatim>\<open>types.ts\<close>, with the fields that the modelled
  operations read or write; the occupation, the description, the icon, the equipment
  and the growth fields are left out. JavaScript numbers that hold attribute values,
  resources, skill percentages and dice results are integers here (exact in JavaScript
  below 2 to the power 53); where the source divides with \<^verbatim>\<open>/\<close> the quotient is taken
  in the rationals, as JavaScript's division is not integer division. Names follow the
  source, except where HOL already uses the name (\<^verbatim>\<open>id\<close>, \<^verbatim>\<open>name\<close>, \<^verbatim>\<open>max\<close>,
  \<^verbatim>\<open>STR\<close>, \<^verbatim>\<open>INT\<close>, \<^verbatim>\<open>int\<close>, \<^verbatim>\<open>type\<close>) or where two records would share a
  field name.
\<close>

datatype statName = statSTR | statCON | statPOW | statDEX | statAPP | statSIZ | statINT | statEDU

record stats =
  sSTR :: int
  sCON :: int
  sPOW :: int
  sDEX :: int
  sAPP :: int
  sSIZ :: int
  sINT :: int
  sEDU :: int

record resource =
  current :: int
  maxv :: int

record customSkill =
  cs_name :: string
  baseValue :: int

datatype madnessType = temporary | indefinite

record madness =
  mtype :: "madnessType option"
  description :: string
  duration :: "int option"

record character =
  char_id :: string
  char_name :: string
  stats :: stats
  hp :: resource
  mp :: resource
  san :: resource
  skills :: "string \<rightharpoonup> int"
  customSkills :: "customSkill list"
  madness :: "madness option"

text \<open>\<^verbatim>\<open>character.stats[stat]\<close> and \<^verbatim>\<open>{ ...char.stats, [statName]: value }\<close>.\<close>

fun getStat :: "stats \<Rightarrow> statName \<Rightarrow> int" where
  "getStat s statSTR = sSTR s"
| "getStat s statCON = sCON s"
| "getStat s statPOW = sPOW s"
| "getStat s statDEX = sDEX s"
| "getStat s statAPP = sAPP s"
| "getStat s statSIZ = sSIZ s"
| "getStat s statINT = sINT s"
| "getStat s statEDU = sEDU s"

fun setStat :: "stats \<Rightarrow> statName \<Rightarrow> int \<Rightarrow> stats" where
  "setStat s statSTR v = s\<lparr>sSTR := v\<rparr>"
| "setStat s statCON v = s\<lparr>sCON := v\<rparr>"
| "setStat s statPOW v = s\<lparr>sPOW := v\<rparr>"
| "setStat s statDEX v = s\<lparr>sDEX := v\<rparr>"
| "setStat s statAPP v = s\<lparr>sAPP := v\<rparr>"
| "setStat s statSIZ v = s\<lparr>sSIZ := v\<rparr>"
| "setStat s statINT v = s\<lparr>sINT := v\<rparr>"
| "setStat s statEDU v = s\<lparr>sEDU := v\<rparr>"

text \<open>
  \<^verbatim>\<open>createNewCharacter\<close> of CharacterCreationScreen.tsx. The fresh id, built from the
  clock and a random number, is a parameter; the default name is given by its UTF-8
  bytes.
\<close>

definition createNewCharacter :: "string \<Rightarrow> character" where
  "createNewCharacter newId =
     \<lparr>char_id = newId,
      char_name = [CHR 0xE7, CHR 0x84, CHR 0xA1, CHR 0xE5, CHR 0x90, CHR 0x8D, CHR 0xE3,
                   CHR 0x81, CHR 0xAE, CHR 0xE6, CHR 0x8E, CHR 0xA2, CHR 0xE7, CHR 0xB4,
                   CHR 0xA2, CHR 0xE8, CHR 0x80, CHR 0x85],
      stats = \<lparr>sSTR = 10, sCON = 10, sPOW = 10, sDEX = 10, sAPP = 10, sSIZ = 10,
                sINT = 10, sEDU = 10\<rparr>,
      hp = \<lparr>current = 10, maxv = 10\<rparr>,
      mp = \<lparr>current = 10, maxv = 10\<rparr>,
      san = \<lparr>current = 50, maxv = 50\<rparr>,
      skills = Map.empty,
      customSkills = [],
      madness = Some \<lparr>mtype = None, description = [], duration = Some 0\<rparr>\<rparr>"

section \<open>Check resolution (GamePlayScreen.tsx)\<close>

text \<open>
  The source writes the tier as a display string; each constructor stands for one label:
  \<^verbatim>\<open>Critical\<close> for the label ending in "(01)", \<^verbatim>\<open>Fumble00\<close> for the label ending in
  "(00)", and so on in the order of the source's chain.
\<close>

datatype tier =
  Critical | ExtremeSuccess | HardSuccess | RegularSuccess | Fumble00 | Fumble | Failure

text \<open>The chain in the \<^verbatim>\<open>onComplete\<close> callback of \<^verbatim>\<open>handleSkillCheck\<close>.\<close>

definition skillCheckResult :: "int \<Rightarrow> int \<Rightarrow> tier" where
  "skillCheckResult diceRoll skillValue =
     (if diceRoll \<le> 1 then Critical
      else if (of_int diceRoll :: rat) \<le> of_int skillValue / 5 then ExtremeSuccess
      else if (of_int diceRoll :: rat) \<le> of_int skillValue / 2 then HardSuccess
      else if diceRoll \<le> skillValue then RegularSuccess
      else if diceRoll \<ge> 100 then Fumble00
      else if diceRoll \<ge> 96 \<and> skillValue < 50 then Fumble
      else Failure)"

text \<open>The chain in the \<^verbatim>\<open>onComplete\<close> callback of \<^verbatim>\<open>handleStatCheck\<close>.\<close>

definition statCheckResult :: "int \<Rightarrow> int \<Rightarrow> tier" where
  "statCheckResult diceRoll targetValue =
     (if diceRoll \<le> 1 then Critical
      else if (of_int diceRoll :: rat) \<le> of_int targetValue / 5 then ExtremeSuccess
      else if (of_int diceRoll :: rat) \<le> of_int targetValue / 2 then HardSuccess
      else if diceRoll \<le> targetValue then RegularSuccess
      else if diceRoll \<ge> 100 then Fumble00
      else if diceRoll \<ge> 96 \<and> targetValue < 50 then Fumble
      else Failure)"

text \<open>The chain in the \<^verbatim>\<open>onComplete\<close> callback of \<^verbatim>\<open>handlePushRoll\<close>.\<close>

definition pushRollResult :: "int \<Rightarrow> int \<Rightarrow> tier" where
  "pushRollResult diceRoll val =
     (if diceRoll \<le> 1 then Critical
      else if (of_int diceRoll :: rat) \<le> of_int val / 5 then ExtremeSuccess
      else if (of_int diceRoll :: rat) \<le> of_int val / 2 then HardSuccess
      else if diceRoll \<le> val then RegularSuccess
      else if diceRoll \<ge> 100 then Fumble00
      else if diceRoll \<ge> 96 \<and> val < 50 then Fumble
      else Failure)"

text \<open>
  \<^verbatim>\<open>isSuccess = result !== [Failure] && result !== [Fumble] && result !== [Fumble (00)]\<close>.
\<close>

definition isSuccess :: "tier \<Rightarrow> bool" where
  "isSuccess result = (result \<noteq> Failure \<and> result \<noteq> Fumble \<and> result \<noteq> Fumble00)"

text \<open>
  The tier function in the words of the specification (section 4.3), with the floors
  written as integer division. It is compared with the three chains of the source below.
\<close>

definition resolve_spec :: "int \<Rightarrow> int \<Rightarrow> tier" where
  "resolve_spec roll target =
     (if roll \<le> 1 then Critical
      else if roll \<le> target div 5 then ExtremeSuccess
      else if roll \<le> target div 2 then HardSuccess
      else if roll \<le> target then RegularSuccess
      else if roll \<ge> 100 then Fumble00
      else if roll \<ge> 96 \<and> target < 50 then Fumble
      else Failure)"

text \<open>
  The multiplier that reaches \<^verbatim>\<open>handleStatCheck\<close> from the narrator's directive: the
  field is optional in \<^verbatim>\<open>KeeperResponse\<close> and nullable in the response schema, and the
  parsed JSON is passed on as it is. It is absent (\<^verbatim>\<open>undefined\<close>), \<^verbatim>\<open>null\<close> or a
  number.
\<close>

datatype multiplier = MultUndefined | MultNull | MultNumber int

text \<open>
  \<^verbatim>\<open>handleStatCheck(stat, multiplier = 5, reason, characterId)\<close>: the target of a stat
  check, \<^verbatim>\<open>statValue * multiplier\<close>. The default parameter replaces \<^verbatim>\<open>undefined\<close> only;
  \<^verbatim>\<open>null\<close> stays, and in the product it counts as 0.
\<close>

definition statCheckTarget :: "character \<Rightarrow> statName \<Rightarrow> multiplier \<Rightarrow> int" where
  "statCheckTarget c stat mult =
     (let statValue = getStat (stats c) stat
      in case mult of
           MultUndefined \<Rightarrow> statValue * 5
         | MultNull \<Rightarrow> statValue * 0
         | MultNumber k \<Rightarrow> statValue * k)"

text \<open>
  The multiplier that the button of the pending stat check displays:
  \<^verbatim>\<open>pendingAction.statCheck.multiplier || 5\<close>.
\<close>

definition displayedMultiplier :: "multiplier \<Rightarrow> int" where
  "displayedMultiplier mult =
     (case mult of
        MultUndefined \<Rightarrow> 5
      | MultNull \<Rightarrow> 5
      | MultNumber k \<Rightarrow> if k = 0 then 5 else k)"

lemma le_div_iff_rat:
  fixes r t :: int
  assumes "0 < k"
  shows "((of_int r :: rat) \<le> of_int t / of_int k) = (r \<le> t div k)"
proof -
  have "((of_int r :: rat) \<le> of_int t / of_int k) = (of_int r \<le> \<lfloor>(of_int t :: rat) / of_int k\<rfloor>)"
    by (simp add: le_floor_iff)
  also have "\<lfloor>(of_int t :: rat) / of_int k\<rfloor> = t div k"
    by (simp add: floor_divide_of_int_eq)
  finally show ?thesis by simp
qed

lemma le_div5_rat: "((of_int r :: rat) \<le> of_int t / 5) = (r \<le> t div 5)"
  using le_div_iff_rat [of 5 r t] by simp

lemma le_div2_rat: "((of_int r :: rat) \<le> of_int t / 2) = (r \<le> t div 2)"
  using le_div_iff_rat [of 2 r t] by simp

lemma skillCheckResult_spec: "skillCheckResult roll target = resolve_spec roll target"
  unfolding skillCheckResult_def resolve_spec_def le_div5_rat le_div2_rat by (rule refl)

lemma statCheckResult_spec: "statCheckResult roll target = resolve_spec roll target"
  unfolding statCheckResult_def resolve_spec_def le_div5_rat le_div2_rat by (rule refl)

lemma pushRollResult_spec: "pushRollResult roll target = resolve_spec roll target"
  unfolding pushRollResult_def resolve_spec_def le_div5_rat le_div2_rat by (rule refl)

lemma isSuccess_iff:
  "isSuccess t = (t \<in> {Critical, ExtremeSuccess, HardSuccess, RegularSuccess})"
  by (cases t) (simp_all add: isSuccess_def)


section \<open>Dice notation (utils/dice.ts)\<close>

text \<open>
  A JavaScript string is modelled by the bytes of its UTF-8 encoding, so that the Japanese
  skill names and the non-ASCII white space of \<^verbatim>\<open>\s\<close> and \<^verbatim>\<open>trim\<close> are covered.
  \<^verbatim>\<open>Math.random()\<close> is modelled by a list of the values it returns, in order; a draw
  from the exhausted list gives 0. Each value is a rational in the interval from 0
  (inclusive) to 1 (exclusive); the rounding of floating-point products is not modelled.
\<close>

type_synonym rng = "rat list"

definition mathRandom :: "rng \<Rightarrow> rat \<times> rng" where
  "mathRandom rs = (case rs of [] \<Rightarrow> (0, []) | r # rs' \<Rightarrow> (r, rs'))"

text \<open>\<^verbatim>\<open>rollDie = (sides) => Math.floor(Math.random() * sides) + 1\<close>\<close>

definition rollDie :: "rng \<Rightarrow> int \<Rightarrow> int \<times> rng" where
  "rollDie rs sides = (case mathRandom rs of (r, rs') \<Rightarrow> (\<lfloor>r * of_int sides\<rfloor> + 1, rs'))"

definition isDigit :: "char \<Rightarrow> bool" where
  "isDigit c = (48 \<le> (of_char c :: nat) \<and> (of_char c :: nat) \<le> 57)"

text \<open>\<^verbatim>\<open>parseInt(ds, 10)\<close> on a run of decimal digits, most significant first.\<close>

definition parseDigits :: "string \<Rightarrow> int" where
  "parseDigits ds = foldl (\<lambda>acc c. 10 * acc + (int (of_char c) - 48)) 0 ds"

text \<open>
  \<^verbatim>\<open>toLowerCase\<close>: only the ASCII letters are mapped. Lower-casing a non-ASCII character
  never yields \<^verbatim>\<open>d\<close>, a digit, a sign or white space, so the pattern below cannot
  tell the difference.
\<close>

definition toLowerCase :: "string \<Rightarrow> string" where
  "toLowerCase s =
     map (\<lambda>c. if 65 \<le> (of_char c :: nat) \<and> (of_char c :: nat) \<le> 90
               then char_of ((of_char c :: nat) + 32) else c) s"

text \<open>
  The characters matched by \<^verbatim>\<open>\s\<close> and stripped by \<^verbatim>\<open>trim\<close>: tab, line feed,
  vertical tab, form feed, carriage return, space, U+00A0, U+1680, U+2000 to U+200A,
  U+2028, U+2029, U+202F, U+205F, U+3000 and U+FEFF, as UTF-8 byte sequences.
\<close>

definition jsWhiteSpace :: "nat list list" where
  "jsWhiteSpace =
     [[9], [10], [11], [12], [13], [32], [0xC2, 0xA0], [0xE1, 0x9A, 0x80],
      [0xE2, 0x80, 0x80], [0xE2, 0x80, 0x81], [0xE2, 0x80, 0x82], [0xE2, 0x80, 0x83],
      [0xE2, 0x80, 0x84], [0xE2, 0x80, 0x85], [0xE2, 0x80, 0x86], [0xE2, 0x80, 0x87],
      [0xE2, 0x80, 0x88], [0xE2, 0x80, 0x89], [0xE2, 0x80, 0x8A], [0xE2, 0x80, 0xA8],
      [0xE2, 0x80, 0xA9], [0xE2, 0x80, 0xAF], [0xE2, 0x81, 0x9F], [0xE3, 0x80, 0x80],
      [0xEF, 0xBB, 0xBF]]"

text \<open>The number of bytes of the white-space character at the head of the string, or 0.\<close>

definition wsLen :: "string \<Rightarrow> nat" where
  "wsLen s =
     (case List.find (\<lambda>w. take (length w) (map of_char s) = w) jsWhiteSpace of
        None \<Rightarrow> 0 | Some w \<Rightarrow> length w)"

text \<open>The number of bytes of the white-space character at the end of the string, or 0.\<close>

definition wsLenEnd :: "string \<Rightarrow> nat" where
  "wsLenEnd s =
     (case List.find (\<lambda>w. take (length w) (rev (map of_char s)) = rev w) jsWhiteSpace of
        None \<Rightarrow> 0 | Some w \<Rightarrow> length w)"

text \<open>\<^verbatim>\<open>.replace(/\s+/g, '')\<close>\<close>

fun removeWhiteSpace :: "string \<Rightarrow> string" where
  "removeWhiteSpace [] = []"
| "removeWhiteSpace (c # s) =
     (if 0 < wsLen (c # s) then removeWhiteSpace (drop (wsLen (c # s) - 1) s)
      else c # removeWhiteSpace s)"

fun trimStart :: "string \<Rightarrow> string" where
  "trimStart [] = []"
| "trimStart (c # s) =
     (if 0 < wsLen (c # s) then trimStart (drop (wsLen (c # s) - 1) s) else c # s)"

text \<open>\<^verbatim>\<open>trimEnd\<close> works on the reversed string and strips from its head.\<close>

fun trimEndRev :: "string \<Rightarrow> string" where
  "trimEndRev [] = []"
| "trimEndRev (c # s) =
     (if 0 < wsLenEnd (rev (c # s)) then trimEndRev (drop (wsLenEnd (rev (c # s)) - 1) s)
      else c # s)"

definition trim :: "string \<Rightarrow> string" where
  "trim s = rev (trimEndRev (rev (trimStart s)))"

text \<open>
  The pattern \<^verbatim>\<open>/(\d+)?d(\d+)([+-]\d+)?/\<close> tried at the head of a string. The first
  group is greedy and, when it has taken digits, the next character decides: giving
  digits back leaves a digit where \<^verbatim>\<open>d\<close> is required. The result holds the three
  groups, an absent group being \<^verbatim>\<open>None\<close>.
\<close>

definition matchModifier :: "string \<Rightarrow> string option" where
  "matchModifier s =
     (case s of
        [] \<Rightarrow> None
      | c # r \<Rightarrow>
          if (c = CHR ''+'' \<or> c = CHR ''-'') \<and> takeWhile isDigit r \<noteq> []
          then Some (c # takeWhile isDigit r) else None)"

definition matchAt :: "string \<Rightarrow> (string option \<times> string \<times> string option) option" where
  "matchAt s =
     (let g1 = takeWhile isDigit s; r1 = dropWhile isDigit s
      in case r1 of
           [] \<Rightarrow> None
         | c # r2 \<Rightarrow>
             if c = CHR ''d'' \<and> takeWhile isDigit r2 \<noteq> []
             then Some (if g1 = [] then None else Some g1,
                        takeWhile isDigit r2,
                        matchModifier (dropWhile isDigit r2))
             else None)"

text \<open>\<^verbatim>\<open>sanitized.match(...)\<close>: the leftmost position at which the pattern matches.\<close>

fun matchDice :: "string \<Rightarrow> (string option \<times> string \<times> string option) option" where
  "matchDice [] = None"
| "matchDice (c # s) =
     (case matchAt (c # s) of Some m \<Rightarrow> Some m | None \<Rightarrow> matchDice s)"

text \<open>\<^verbatim>\<open>parseInt\<close> of the third group: a sign and digits.\<close>

definition parseSigned :: "string \<Rightarrow> int" where
  "parseSigned s =
     (case s of
        [] \<Rightarrow> 0
      | c # ds \<Rightarrow> if c = CHR ''-'' then - parseDigits ds else parseDigits ds)"

text \<open>The loop \<^verbatim>\<open>for (let i = 0; i < numDice; i++) total += rollDie(numSides)\<close>.\<close>

fun rollLoop :: "rng \<Rightarrow> int \<Rightarrow> nat \<Rightarrow> int \<Rightarrow> int \<times> rng" where
  "rollLoop rs numSides 0 tot = (tot, rs)"
| "rollLoop rs numSides (Suc n) tot =
     (case rollDie rs numSides of (d, rs') \<Rightarrow> rollLoop rs' numSides n (tot + d))"

definition sanitize :: "string \<Rightarrow> string" where
  "sanitize notation = removeWhiteSpace (toLowerCase notation)"

definition parseAndRoll :: "rng \<Rightarrow> string \<Rightarrow> int \<times> rng" where
  "parseAndRoll rs notation =
     (case matchDice (sanitize notation) of
        None \<Rightarrow> (0, rs)
      | Some (g1, g2, g3) \<Rightarrow>
          let numDice = (case g1 of None \<Rightarrow> 1 | Some ds \<Rightarrow> parseDigits ds);
              numSides = parseDigits g2;
              modifier = (case g3 of None \<Rightarrow> 0 | Some m \<Rightarrow> parseSigned m)
          in case rollLoop rs numSides (nat numDice) 0 of
               (tot, rs') \<Rightarrow> (tot + modifier, rs'))"

text \<open>\<^verbatim>\<open>isFixedValue\<close>: \<^verbatim>\<open>/^\d+$/.test(notation.trim())\<close>\<close>

definition isFixedValue :: "string \<Rightarrow> bool" where
  "isFixedValue notation = (trim notation \<noteq> [] \<and> list_all isDigit (trim notation))"

text \<open>
  \<^verbatim>\<open>parseFixedOrRoll\<close>: the value of a fixed notation, or -1 when the notation has to be
  rolled. \<^verbatim>\<open>parseInt\<close> of a non-empty run of digits is never \<^verbatim>\<open>NaN\<close>.
\<close>

definition parseFixedOrRoll :: "string \<Rightarrow> int" where
  "parseFixedOrRoll notation =
     (if isFixedValue notation then parseDigits (trim notation) else - 1)"

text \<open>
  The dice modal: \<^verbatim>\<open>setDiceRollRequest({ notation, ..., onComplete })\<close> shows
  \<^verbatim>\<open>DiceRollModal\<close>, which computes \<^verbatim>\<open>parseAndRoll(notation)\<close> and hands the result to
  \<^verbatim>\<open>onComplete\<close>. The state of the modal is the remaining random draws together with
  the notations requested so far.
\<close>

type_synonym modal = "rng \<times> string list"

definition diceRollRequest :: "modal \<Rightarrow> string \<Rightarrow> int \<times> modal" where
  "diceRollRequest m notation =
     (case parseAndRoll (fst m) notation of
        (v, rs') \<Rightarrow> (v, (rs', snd m @ [notation])))"

text \<open>
  The step that \<^verbatim>\<open>handleSanityCheck\<close> repeats for every loss notation: the value of
  \<^verbatim>\<open>parseFixedOrRoll\<close> when it is not negative, and a dice request otherwise.
\<close>

definition fixedOrRolled :: "modal \<Rightarrow> string \<Rightarrow> int \<times> modal" where
  "fixedOrRolled m notation =
     (let fixed = parseFixedOrRoll notation
      in if fixed \<ge> 0 then (fixed, m) else diceRollRequest m notation)"

text \<open>
  The sanitized notation contains the letter \<^verbatim>\<open>d\<close> directly followed by a digit: the
  least that the pattern of \<^verbatim>\<open>parseAndRoll\<close> needs in order to match.
\<close>

fun hasDiceTerm :: "string \<Rightarrow> bool" where
  "hasDiceTerm (a # b # s) = ((a = CHR ''d'' \<and> isDigit b) \<or> hasDiceTerm (b # s))"
| "hasDiceTerm s = False"

lemma isDigit_d [simp]: "\<not> isDigit CHR ''d''"
  by (simp add: isDigit_def)

lemma hasDiceTerm_Cons: "hasDiceTerm s \<Longrightarrow> hasDiceTerm (c # s)"
  by (cases s) auto

lemma hasDiceTerm_append: "hasDiceTerm s \<Longrightarrow> hasDiceTerm (pre @ s)"
  by (induction pre) (auto intro: hasDiceTerm_Cons)

lemma takeWhile_nonempty_hd:
  "takeWhile P r \<noteq> [] \<Longrightarrow> \<exists>b r'. r = b # r' \<and> P b"
  by (cases r) (auto split: if_splits)

lemma matchAt_hasDiceTerm:
  assumes "matchAt s = Some m"
  shows "hasDiceTerm s"
proof -
  from assms obtain r2 where r1: "dropWhile isDigit s = CHR ''d'' # r2"
    and d2: "takeWhile isDigit r2 \<noteq> []"
    by (auto simp: matchAt_def Let_def split: list.splits if_splits)
  from d2 obtain b r' where "r2 = b # r'" "isDigit b"
    using takeWhile_nonempty_hd by blast
  then have "hasDiceTerm (dropWhile isDigit s)"
    using r1 by simp
  then have "hasDiceTerm (takeWhile isDigit s @ dropWhile isDigit s)"
    by (rule hasDiceTerm_append)
  then show ?thesis by simp
qed

lemma matchDice_hasDiceTerm: "matchDice s = Some m \<Longrightarrow> hasDiceTerm s"
proof (induction s)
  case Nil
  then show ?case by simp
next
  case (Cons c s)
  show ?case
  proof (cases "matchAt (c # s)")
    case None
    with Cons show ?thesis by (simp add: hasDiceTerm_Cons)
  next
    case (Some a)
    then show ?thesis by (rule matchAt_hasDiceTerm)
  qed
qed

lemma hasDiceTerm_matchDice: "hasDiceTerm s \<Longrightarrow> matchDice s \<noteq> None"
proof (induction s rule: hasDiceTerm.induct)
  case (1 a b s)
  show ?case
  proof (cases "a = CHR ''d'' \<and> isDigit b")
    case True
    then have "matchAt (a # b # s) \<noteq> None"
      by (simp add: matchAt_def)
    then show ?thesis by auto
  next
    case False
    with 1 have "matchDice (b # s) \<noteq> None" by auto
    then show ?thesis by (auto split: option.splits)
  qed
qed simp_all

lemma matchDice_None_iff: "(matchDice s = None) = (\<not> hasDiceTerm s)"
proof (cases "matchDice s")
  case None
  then show ?thesis using hasDiceTerm_matchDice [of s] by auto
next
  case (Some m)
  then show ?thesis using matchDice_hasDiceTerm [of s m] by simp
qed

lemma parseAndRoll_unrecognized:
  assumes "\<not> hasDiceTerm (sanitize notation)"
  shows "parseAndRoll rs notation = (0, rs)"
proof -
  from assms have "matchDice (sanitize notation) = None"
    by (simp add: matchDice_None_iff)
  then show ?thesis by (simp add: parseAndRoll_def)
qed

lemma parseDigits_foldl_nonneg:
  "0 \<le> acc \<Longrightarrow> list_all isDigit ds \<Longrightarrow>
   0 \<le> foldl (\<lambda>acc c. 10 * acc + (int (of_char c) - 48)) acc ds"
  by (induction ds arbitrary: acc) (auto simp: isDigit_def)

lemma parseDigits_nonneg: "list_all isDigit ds \<Longrightarrow> 0 \<le> parseDigits ds"
  unfolding parseDigits_def by (rule parseDigits_foldl_nonneg) simp_all

lemma parseFixedOrRoll_fixed:
  "isFixedValue notation \<Longrightarrow>
   parseFixedOrRoll notation = parseDigits (trim notation) \<and> 0 \<le> parseFixedOrRoll notation"
  by (simp add: parseFixedOrRoll_def isFixedValue_def parseDigits_nonneg)

lemma parseFixedOrRoll_not_fixed:
  "\<not> isFixedValue notation \<Longrightarrow> parseFixedOrRoll notation = - 1"
  by (simp add: parseFixedOrRoll_def)

lemma digits_no_dice_term: "list_all isDigit s \<Longrightarrow> \<not> hasDiceTerm s"
  by (induction s rule: hasDiceTerm.induct) auto

text \<open>
  C8, as stated, fails: \<^verbatim>\<open>parseAndRoll\<close>, the evaluator behind every dice
  request, gives 0 for the bare integer 5 and not 5.
\<close>

theorem C8_bare_integer_counterexample:
  "parseAndRoll [1 / 2] ''5'' = (0, [1 / 2]) \<and> fst (parseAndRoll [1 / 2] ''5'') \<noteq> 5"
  by code_simp

text \<open>
  C8, amended. The sanitized notation is the notation in lower case with all white space
  removed, as \<^verbatim>\<open>parseAndRoll\<close> prepares it; it has a dice term when it contains the
  letter \<^verbatim>\<open>d\<close> directly followed by a digit, which is exactly when the pattern of
  \<^verbatim>\<open>parseAndRoll\<close> matches (so \<^verbatim>\<open>1D6\<close> and \<^verbatim>\<open>d 6\<close> have one). A loss notation of a
  sanity check goes through \<^verbatim>\<open>parseFixedOrRoll\<close> first: when it is a bare integer
  (digits only, after trimming) it evaluates to that value, and neither a dice request
  nor a random draw is made. A loss notation that is not a bare integer and whose
  sanitized form has no dice term is sent to the dice modal and evaluates to 0.
  \<^verbatim>\<open>parseAndRoll\<close> itself evaluates every notation whose sanitized form has no dice term
  to 0 without a draw; that includes every notation whose sanitized form is digits only.
\<close>

theorem C8_fixed_value_or_zero:
  "(isFixedValue notation \<longrightarrow>
      fixedOrRolled m notation = (parseDigits (trim notation), m))
   \<and> (\<not> isFixedValue notation \<and> \<not> hasDiceTerm (sanitize notation) \<longrightarrow>
      fixedOrRolled m notation = (0, (fst m, snd m @ [notation])))
   \<and> (\<not> hasDiceTerm (sanitize notation) \<longrightarrow> parseAndRoll rs notation = (0, rs))
   \<and> (list_all isDigit (sanitize notation) \<longrightarrow> parseAndRoll rs notation = (0, rs))
   \<and> (matchDice (sanitize notation) = None) = (\<not> hasDiceTerm (sanitize notation))"
proof (intro conjI impI)
  show "(matchDice (sanitize notation) = None) = (\<not> hasDiceTerm (sanitize notation))"
    by (rule matchDice_None_iff)
next
  assume "isFixedValue notation"
  then have "parseFixedOrRoll notation = parseDigits (trim notation)
             \<and> 0 \<le> parseFixedOrRoll notation"
    by (rule parseFixedOrRoll_fixed)
  then show "fixedOrRolled m notation = (parseDigits (trim notation), m)"
    by (simp add: fixedOrRolled_def Let_def)
next
  assume a: "\<not> isFixedValue notation \<and> \<not> hasDiceTerm (sanitize notation)"
  then have "parseFixedOrRoll notation = - 1"
    by (simp add: parseFixedOrRoll_not_fixed)
  moreover from a have "parseAndRoll (fst m) notation = (0, fst m)"
    by (simp add: parseAndRoll_unrecognized)
  ultimately show "fixedOrRolled m notation = (0, (fst m, snd m @ [notation]))"
    by (simp add: fixedOrRolled_def diceRollRequest_def)
next
  assume "\<not> hasDiceTerm (sanitize notation)"
  then show "parseAndRoll rs notation = (0, rs)"
    by (rule parseAndRoll_unrecognized)
next
  assume "list_all isDigit (sanitize notation)"
  then have "\<not> hasDiceTerm (sanitize notation)"
    by (rule digits_no_dice_term)
  then show "parseAndRoll rs notation = (0, rs)"
    by (rule parseAndRoll_unrecognized)
qed

theorem C8_fixed_value_or_zero_witness:
  "isFixedValue '' 12 ''
   \<and> fixedOrRolled ([1 / 2], []) '' 12 '' = (12, ([1 / 2], []))
   \<and> \<not> isFixedValue ''abc'' \<and> \<not> hasDiceTerm (sanitize ''abc'')
   \<and> fixedOrRolled ([1 / 2], []) ''abc'' = (0, ([1 / 2], [''abc'']))
   \<and> parseAndRoll [1 / 2] ''abc'' = (0, [1 / 2])
   \<and> list_all isDigit (sanitize ''7'') \<and> parseAndRoll [1 / 2] ''7'' = (0, [1 / 2])
   \<and> hasDiceTerm (sanitize ''1D6'') \<and> parseAndRoll [1 / 2] ''1D6'' = (4, [])
   \<and> hasDiceTerm (sanitize ''d 6'') \<and> parseAndRoll [1 / 2] ''d 6'' = (4, [])"
proof -
  have u: "hasDiceTerm (sanitize ''1D6'') \<and> parseAndRoll [1 / 2] ''1D6'' = (4, [])
           \<and> hasDiceTerm (sanitize ''d 6'') \<and> parseAndRoll [1 / 2] ''d 6'' = (4, [])"
    by code_simp
  have h1: "isFixedValue '' 12 ''" by code_simp
  have v1: "parseDigits (trim '' 12 '') = 12" by code_simp
  have h2: "\<not> isFixedValue ''abc'' \<and> \<not> hasDiceTerm (sanitize ''abc'')" by code_simp
  have h3: "list_all isDigit (sanitize ''7'')" by code_simp
  note t1 = C8_fixed_value_or_zero [of "'' 12 ''" "([1 / 2], [])" "[1 / 2]"]
  note t2 = C8_fixed_value_or_zero [of "''abc''" "([1 / 2], [])" "[1 / 2]"]
  note t3 = C8_fixed_value_or_zero [of "''7''" "([1 / 2], [])" "[1 / 2]"]
  from t1 h1 v1 have c1: "fixedOrRolled ([1 / 2], []) '' 12 '' = (12, ([1 / 2], []))"
    by simp
  from t2 h2 have c2: "fixedOrRolled ([1 / 2], []) ''abc'' = (0, ([1 / 2], [''abc'']))"
    by simp
  from t2 h2 have c3: "parseAndRoll [1 / 2] ''abc'' = (0, [1 / 2])"
    by blast
  from t3 h3 have c4: "parseAndRoll [1 / 2] ''7'' = (0, [1 / 2])"
    by blast
  show ?thesis using h1 h2 h3 c1 c2 c3 c4 u by blast
qed


section \<open>Turn orchestration (GamePlayScreen.tsx)\<close>

text \<open>
  The part of the component's state that the checks read and write. \<^verbatim>\<open>sent\<close> records the
  calls of \<^verbatim>\<open>sendPlayerAction\<close>, each with the roll result it passes to the narrator, if
  any. Reading a property of \<^verbatim>\<open>characters.find(...)!\<close> when no character has the id
  throws a \<^verbatim>\<open>TypeError\<close>.
\<close>

datatype error = TypeError

record rollResult =
  rr_characterName :: string
  rr_skill :: string
  rr_value :: int
  rr_result :: tier
  rr_dice :: int

record failedCheck =
  fc_characterId :: string
  fc_skill :: string
  fc_value :: int
  fc_dice :: int
  fc_result :: tier

record game =
  characters :: "character list"
  lastFailedSkillCheck :: "failedCheck option"
  chatSession :: bool
  isLoading :: bool
  sent :: "rollResult option list"
  gameOver :: bool

definition findCharacter :: "character list \<Rightarrow> string \<Rightarrow> character option" where
  "findCharacter cs characterId = List.find (\<lambda>c. char_id c = characterId) cs"

text \<open>\<^verbatim>\<open>updateCharacterState(charId, updates)\<close> with a function as the update.\<close>

definition updateCharacterState ::
  "string \<Rightarrow> (character \<Rightarrow> character) \<Rightarrow> character list \<Rightarrow> character list" where
  "updateCharacterState charId updates prev =
     map (\<lambda>c. if char_id c = charId then updates c else c) prev"

text \<open>The function that \<^verbatim>\<open>decrementMadnessDuration\<close> maps over the characters.\<close>

definition decrementMadness1 :: "character \<Rightarrow> character" where
  "decrementMadness1 character =
     (case madness character of
        None \<Rightarrow> character
      | Some m \<Rightarrow>
          (case duration m of
             None \<Rightarrow> character
           | Some d \<Rightarrow>
               if mtype m = Some temporary \<and> d > 0 then
                 (let newDuration = d - 1
                  in if newDuration \<le> 0
                     then character\<lparr>madness :=
                            Some \<lparr>mtype = None, description = [], duration = None\<rparr>\<rparr>
                     else character\<lparr>madness := Some (m\<lparr>duration := Some newDuration\<rparr>)\<rparr>)
               else character))"

definition decrementMadnessDuration :: "character list \<Rightarrow> character list" where
  "decrementMadnessDuration prev = map decrementMadness1 prev"

text \<open>
  \<^verbatim>\<open>skill.replace(/[...]/g, '')\<close> removes the two angle brackets U+3008 and U+3009,
  whose UTF-8 encodings are E3 80 88 and E3 80 89.
\<close>

fun cleanSkill :: "string \<Rightarrow> string" where
  "cleanSkill (a # b # c # s) =
     (if a = CHR 0xE3 \<and> b = CHR 0x80 \<and> (c = CHR 0x88 \<or> c = CHR 0x89)
      then cleanSkill s else a # cleanSkill (b # c # s))"
| "cleanSkill s = s"

text \<open>
  \<^verbatim>\<open>handleSkillCheck(skill, characterId)\<close> together with its \<^verbatim>\<open>onComplete\<close> callback;
  \<^verbatim>\<open>diceRoll\<close> is the value with which the dice modal answers the request for
  \<^verbatim>\<open>1d100\<close>.
\<close>

definition handleSkillCheck :: "game \<Rightarrow> string \<Rightarrow> string \<Rightarrow> int \<Rightarrow> error + game" where
  "handleSkillCheck g skill characterId diceRoll =
     (case findCharacter (characters g) characterId of
        None \<Rightarrow> Inl TypeError
      | Some character \<Rightarrow>
          let g1 = g\<lparr>lastFailedSkillCheck := None,
                     characters := decrementMadnessDuration (characters g)\<rparr>;
              cleanedSkill = cleanSkill skill;
              skillValue = (case skills character cleanedSkill of None \<Rightarrow> 0 | Some v \<Rightarrow> v);
              result = skillCheckResult diceRoll skillValue
          in if isSuccess result then
               (if \<not> chatSession g then Inr g1
                else Inr (g1\<lparr>isLoading := True,
                             sent := sent g1 @
                               [Some \<lparr>rr_characterName = char_name character,
                                      rr_skill = cleanedSkill, rr_value = skillValue,
                                      rr_result = result, rr_dice = diceRoll\<rparr>]\<rparr>))
             else Inr (g1\<lparr>lastFailedSkillCheck :=
                            Some \<lparr>fc_characterId = characterId, fc_skill = cleanedSkill,
                                  fc_value = skillValue, fc_dice = diceRoll,
                                  fc_result = result\<rparr>\<rparr>))"

text \<open>
  \<^verbatim>\<open>handleStatCheck(stat, multiplier = 5, reason, characterId)\<close> with its callback. The
  name of the check, the stat and the multiplier joined by a multiplication sign, is
  passed in as \<^verbatim>\<open>checkName\<close>.
\<close>

definition handleStatCheck ::
  "game \<Rightarrow> statName \<Rightarrow> multiplier \<Rightarrow> string \<Rightarrow> string \<Rightarrow> int \<Rightarrow> error + game" where
  "handleStatCheck g stat multiplier checkName characterId diceRoll =
     (case findCharacter (characters g) characterId of
        None \<Rightarrow> Inl TypeError
      | Some character \<Rightarrow>
          let g1 = g\<lparr>lastFailedSkillCheck := None,
                     characters := decrementMadnessDuration (characters g)\<rparr>;
              targetValue = statCheckTarget character stat multiplier;
              result = statCheckResult diceRoll targetValue
          in if isSuccess result then
               (if \<not> chatSession g then Inr g1
                else Inr (g1\<lparr>isLoading := True,
                             sent := sent g1 @
                               [Some \<lparr>rr_characterName = char_name character,
                                      rr_skill = checkName, rr_value = targetValue,
                                      rr_result = result, rr_dice = diceRoll\<rparr>]\<rparr>))
             else Inr (g1\<lparr>lastFailedSkillCheck :=
                            Some \<lparr>fc_characterId = characterId, fc_skill = checkName,
                                  fc_value = targetValue, fc_dice = diceRoll,
                                  fc_result = result\<rparr>\<rparr>))"

definition handleDeclinePushRoll :: "game \<Rightarrow> error + game" where
  "handleDeclinePushRoll g =
     (case lastFailedSkillCheck g of
        None \<Rightarrow> Inr g
      | Some f \<Rightarrow>
          if \<not> chatSession g then Inr g
          else (case findCharacter (characters g) (fc_characterId f) of
                  None \<Rightarrow> Inl TypeError
                | Some character \<Rightarrow>
                    Inr (g\<lparr>lastFailedSkillCheck := None, isLoading := True,
                           sent := sent g @
                             [Some \<lparr>rr_characterName = char_name character,
                                    rr_skill = fc_skill f, rr_value = fc_value f,
                                    rr_result = fc_result f, rr_dice = fc_dice f\<rparr>]\<rparr>)))"

text \<open>
  \<^verbatim>\<open>handlePushRoll\<close> with its callback; \<^verbatim>\<open>diceRoll\<close> is the answer of the dice modal to
  the single request for \<^verbatim>\<open>1d100\<close> that the handler makes.
\<close>

definition handlePushRoll :: "game \<Rightarrow> int \<Rightarrow> error + game" where
  "handlePushRoll g diceRoll =
     (case lastFailedSkillCheck g of
        None \<Rightarrow> Inr g
      | Some f \<Rightarrow>
          if \<not> chatSession g then Inr g
          else (case findCharacter (characters g) (fc_characterId f) of
                  None \<Rightarrow> Inl TypeError
                | Some character \<Rightarrow>
                    let val = fc_value f;
                        result = pushRollResult diceRoll val
                    in Inr (g\<lparr>characters := decrementMadnessDuration (characters g),
                              lastFailedSkillCheck := None, isLoading := True,
                              sent := sent g @
                                [Some \<lparr>rr_characterName = char_name character,
                                       rr_skill = fc_skill f, rr_value = val,
                                       rr_result = result, rr_dice = diceRoll\<rparr>]\<rparr>)))"

text \<open>
  The push-roll buttons are rendered under \<^verbatim>\<open>lastFailedSkillCheck && !isLoading\<close>.
\<close>

definition pushRollOffered :: "game \<Rightarrow> bool" where
  "pushRollOffered g = (lastFailedSkillCheck g \<noteq> None \<and> \<not> isLoading g)"


text \<open>
  The state of the screen once the session is open and the narrator's first response has
  arrived: the characters as given, nothing pending and nothing sent.
\<close>

definition startedGame :: "character list \<Rightarrow> game" where
  "startedGame initialCharacters =
     \<lparr>characters = initialCharacters, lastFailedSkillCheck = None, chatSession = True,
      isLoading = False, sent = [], gameOver = False\<rparr>"

lemma decrementMadness1_frame [simp]:
  "char_id (decrementMadness1 c) = char_id c"
  "char_name (decrementMadness1 c) = char_name c"
  "san (decrementMadness1 c) = san c"
  "skills (decrementMadness1 c) = skills c"
  "stats (decrementMadness1 c) = stats c"
  by (simp_all add: decrementMadness1_def Let_def split: option.splits)

lemma find_map_id_preserving:
  assumes "\<And>c. char_id (f c) = char_id c"
  shows "findCharacter (map f cs) x = map_option f (findCharacter cs x)"
  by (induction cs) (simp_all add: findCharacter_def assms)

lemma findCharacter_decrement:
  "findCharacter (decrementMadnessDuration cs) x = map_option decrementMadness1 (findCharacter cs x)"
  unfolding decrementMadnessDuration_def by (rule find_map_id_preserving) simp

subsection \<open>The tier rule and the target of a stat check\<close>

text \<open>
  C2. The chains of the skill check, the stat check and the push-roll all compute the
  specification's tier function, and success is any tier other than Failure, Fumble and
  Fumble (00). The target of a stat check is the stat times the multiplier, and stat
  times 5 when the directive has no multiplier; for a multiplier that is \<^verbatim>\<open>null\<close>,
  where the button shows 5, the handler resolves against the target 0: a new character
  (STR 10) who rolls 30 fails, while against 50 the roll is a regular success.
\<close>

theorem C2_tier_rule_null_multiplier:
  "skillCheckResult roll target = resolve_spec roll target
   \<and> statCheckResult roll target = resolve_spec roll target
   \<and> pushRollResult roll target = resolve_spec roll target
   \<and> statCheckTarget c stat MultUndefined = getStat (stats c) stat * 5
   \<and> statCheckTarget c stat (MultNumber m) = getStat (stats c) stat * m
   \<and> isSuccess t = (t \<in> {Critical, ExtremeSuccess, HardSuccess, RegularSuccess})
   \<and> statCheckTarget c stat MultNull = 0
   \<and> displayedMultiplier MultNull = 5
   \<and> statCheckTarget (createNewCharacter ''c1'') statSTR MultNull = 0
   \<and> getStat (stats (createNewCharacter ''c1'')) statSTR * displayedMultiplier MultNull = 50
   \<and> statCheckResult 30 0 = Failure
   \<and> statCheckResult 30 50 = RegularSuccess
   \<and> (\<exists>g'. handleStatCheck (startedGame [createNewCharacter ''c1'']) statSTR MultNull
              ''STRxnull'' ''c1'' 30 = Inr g'
          \<and> lastFailedSkillCheck g'
              = Some \<lparr>fc_characterId = ''c1'', fc_skill = ''STRxnull'', fc_value = 0,
                      fc_dice = 30, fc_result = Failure\<rparr>
          \<and> sent g' = [])"
proof -
  have r: "statCheckResult 30 0 = Failure" "statCheckResult 30 50 = RegularSuccess"
    by (simp_all add: statCheckResult_spec resolve_spec_def)
  have f: "findCharacter (characters (startedGame [createNewCharacter ''c1''])) ''c1''
             = Some (createNewCharacter ''c1'')"
    by (simp add: findCharacter_def startedGame_def createNewCharacter_def)
  have n: "statCheckTarget (createNewCharacter ''c1'') statSTR MultNull = 0"
    by (simp add: statCheckTarget_def)
  have h: "\<exists>g'. handleStatCheck (startedGame [createNewCharacter ''c1'']) statSTR MultNull
              ''STRxnull'' ''c1'' 30 = Inr g'
          \<and> lastFailedSkillCheck g'
              = Some \<lparr>fc_characterId = ''c1'', fc_skill = ''STRxnull'', fc_value = 0,
                      fc_dice = 30, fc_result = Failure\<rparr>
          \<and> sent g' = []"
  proof -
    have "\<exists>g'. handleStatCheck (startedGame [createNewCharacter ''c1'']) statSTR MultNull
              ''STRxnull'' ''c1'' 30 = Inr g'
          \<and> lastFailedSkillCheck g'
              = Some \<lparr>fc_characterId = ''c1'', fc_skill = ''STRxnull'', fc_value = 0,
                      fc_dice = 30, fc_result = Failure\<rparr>
          \<and> sent g' = sent (startedGame [createNewCharacter ''c1''])"
      by (simp add: handleStatCheck_def f n r isSuccess_def Let_def)
    then show ?thesis by (simp add: startedGame_def)
  qed
  have d: "getStat (stats (createNewCharacter ''c1'')) statSTR * displayedMultiplier MultNull = 50"
    by (simp add: createNewCharacter_def displayedMultiplier_def)
  show ?thesis
    using isSuccess_iff [of t] r n h d
    by (simp add: skillCheckResult_spec statCheckResult_spec pushRollResult_spec
        statCheckTarget_def displayedMultiplier_def)
qed

subsection \<open>A roll of 100\<close>

text \<open>
  C3, as stated, fails: a stat of 20 checked with the default multiplier 5
  has the target 100, and the roll 100 is then a regular success.
\<close>

theorem C3_roll_100_counterexample:
  "statCheckResult 100 (20 * 5) = RegularSuccess \<and> statCheckResult 100 (20 * 5) \<noteq> Fumble00"
  by (simp add: statCheckResult_def)

text \<open>
  C3, amended. For every target value below 100, resolving a percentile roll of 100
  yields the Fumble (00) tier, in the skill check, the stat check and the push-roll; for
  a target of 100 or more the roll 100 is a success.
\<close>

theorem C3_roll_100_below_target_100:
  "(target < 100 \<longrightarrow>
      skillCheckResult 100 target = Fumble00
      \<and> statCheckResult 100 target = Fumble00
      \<and> pushRollResult 100 target = Fumble00)
   \<and> (100 \<le> target \<longrightarrow> isSuccess (statCheckResult 100 target))"
proof -
  have below: "resolve_spec 100 target = Fumble00" if "target < 100"
  proof -
    from that have "\<not> 100 \<le> target div 5" "\<not> 100 \<le> target div 2" "\<not> 100 \<le> target"
      by linarith+
    then show ?thesis by (simp add: resolve_spec_def)
  qed
  have above: "isSuccess (resolve_spec 100 target)" if "100 \<le> target"
    using that by (simp add: resolve_spec_def isSuccess_def)
  show ?thesis
    using below above
    by (simp add: skillCheckResult_spec statCheckResult_spec pushRollResult_spec)
qed

theorem C3_roll_100_below_target_100_witness:
  "(99::int) < 100 \<and> skillCheckResult 100 99 = Fumble00 \<and> statCheckResult 100 99 = Fumble00
   \<and> pushRollResult 100 99 = Fumble00
   \<and> (100::int) \<le> 105 \<and> isSuccess (statCheckResult 100 105)"
  using C3_roll_100_below_target_100 [of 99] C3_roll_100_below_target_100 [of 105]
  by simp


subsection \<open>Absent skills and the push-roll\<close>

lemma skillCheckResult_zero:
  "skillCheckResult 1 0 = Critical"
  "2 \<le> roll \<Longrightarrow> roll \<le> 95 \<Longrightarrow> skillCheckResult roll 0 = Failure"
  "96 \<le> roll \<Longrightarrow> roll \<le> 99 \<Longrightarrow> skillCheckResult roll 0 = Fumble"
  "skillCheckResult 100 0 = Fumble00"
  by (simp_all add: skillCheckResult_spec resolve_spec_def)

lemma handleSkillCheck_failure:
  assumes "findCharacter (characters g) characterId = Some c"
    and "\<not> isSuccess (skillCheckResult diceRoll (case skills c (cleanSkill skill) of None \<Rightarrow> 0 | Some v \<Rightarrow> v))"
  shows "\<exists>g'. handleSkillCheck g skill characterId diceRoll = Inr g'
           \<and> lastFailedSkillCheck g' =
               Some \<lparr>fc_characterId = characterId, fc_skill = cleanSkill skill,
                     fc_value = (case skills c (cleanSkill skill) of None \<Rightarrow> 0 | Some v \<Rightarrow> v),
                     fc_dice = diceRoll,
                     fc_result = skillCheckResult diceRoll (case skills c (cleanSkill skill) of None \<Rightarrow> 0 | Some v \<Rightarrow> v)\<rparr>
           \<and> sent g' = sent g \<and> chatSession g' = chatSession g \<and> isLoading g' = isLoading g
           \<and> characters g' = decrementMadnessDuration (characters g)"
  using assms by (simp add: handleSkillCheck_def Let_def)

lemma handleSkillCheck_success:
  assumes "findCharacter (characters g) characterId = Some c"
    and "isSuccess (skillCheckResult diceRoll (case skills c (cleanSkill skill) of None \<Rightarrow> 0 | Some v \<Rightarrow> v))"
    and "chatSession g"
  shows "\<exists>g'. handleSkillCheck g skill characterId diceRoll = Inr g'
           \<and> lastFailedSkillCheck g' = None
           \<and> sent g' = sent g @
               [Some \<lparr>rr_characterName = char_name c, rr_skill = cleanSkill skill,
                      rr_value = (case skills c (cleanSkill skill) of None \<Rightarrow> 0 | Some v \<Rightarrow> v),
                      rr_result = skillCheckResult diceRoll (case skills c (cleanSkill skill) of None \<Rightarrow> 0 | Some v \<Rightarrow> v),
                      rr_dice = diceRoll\<rparr>]"
  using assms by (simp add: handleSkillCheck_def Let_def)

text \<open>
  C10. A skill check for a skill name that the character's skills map does not hold is
  resolved against the target 0: every roll from 2 to 95 is a Failure, every roll from
  96 to 99 a Fumble and the roll 100 a Fumble (00), each leaving the push-roll on offer
  and sending nothing; the roll 1 is still a Critical, counts as a success and is sent
  to the narrator with the target 0.
\<close>

theorem C10_absent_skill_target_zero:
  assumes "findCharacter (characters g) characterId = Some c"
    and "skills c (cleanSkill skill) = None"
  shows
    "(2 \<le> roll \<and> roll \<le> 95 \<longrightarrow>
        (\<exists>g'. handleSkillCheck g skill characterId roll = Inr g'
           \<and> lastFailedSkillCheck g' =
               Some \<lparr>fc_characterId = characterId, fc_skill = cleanSkill skill, fc_value = 0,
                     fc_dice = roll, fc_result = Failure\<rparr>
           \<and> sent g' = sent g))
     \<and> (96 \<le> roll \<and> roll \<le> 99 \<longrightarrow>
        (\<exists>g'. handleSkillCheck g skill characterId roll = Inr g'
           \<and> lastFailedSkillCheck g' =
               Some \<lparr>fc_characterId = characterId, fc_skill = cleanSkill skill, fc_value = 0,
                     fc_dice = roll, fc_result = Fumble\<rparr>
           \<and> sent g' = sent g))
     \<and> (\<exists>g'. handleSkillCheck g skill characterId 100 = Inr g'
           \<and> lastFailedSkillCheck g' =
               Some \<lparr>fc_characterId = characterId, fc_skill = cleanSkill skill, fc_value = 0,
                     fc_dice = 100, fc_result = Fumble00\<rparr>
           \<and> sent g' = sent g)
     \<and> isSuccess (skillCheckResult 1 0)
     \<and> (chatSession g \<longrightarrow>
        (\<exists>g'. handleSkillCheck g skill characterId 1 = Inr g'
           \<and> lastFailedSkillCheck g' = None
           \<and> sent g' = sent g @
               [Some \<lparr>rr_characterName = char_name c, rr_skill = cleanSkill skill,
                      rr_value = 0, rr_result = Critical, rr_dice = 1\<rparr>]))"
proof (intro conjI impI)
  assume r: "2 \<le> roll \<and> roll \<le> 95"
  then have "skillCheckResult roll 0 = Failure" by (simp add: skillCheckResult_zero)
  then show "\<exists>g'. handleSkillCheck g skill characterId roll = Inr g'
           \<and> lastFailedSkillCheck g' =
               Some \<lparr>fc_characterId = characterId, fc_skill = cleanSkill skill, fc_value = 0,
                     fc_dice = roll, fc_result = Failure\<rparr>
           \<and> sent g' = sent g"
    using handleSkillCheck_failure [OF assms(1), of roll skill] assms(2)
    by (auto simp: isSuccess_def)
next
  assume r: "96 \<le> roll \<and> roll \<le> 99"
  then have "skillCheckResult roll 0 = Fumble" by (simp add: skillCheckResult_zero)
  then show "\<exists>g'. handleSkillCheck g skill characterId roll = Inr g'
           \<and> lastFailedSkillCheck g' =
               Some \<lparr>fc_characterId = characterId, fc_skill = cleanSkill skill, fc_value = 0,
                     fc_dice = roll, fc_result = Fumble\<rparr>
           \<and> sent g' = sent g"
    using handleSkillCheck_failure [OF assms(1), of roll skill] assms(2)
    by (auto simp: isSuccess_def)
next
  show "\<exists>g'. handleSkillCheck g skill characterId 100 = Inr g'
           \<and> lastFailedSkillCheck g' =
               Some \<lparr>fc_characterId = characterId, fc_skill = cleanSkill skill, fc_value = 0,
                     fc_dice = 100, fc_result = Fumble00\<rparr>
           \<and> sent g' = sent g"
    using handleSkillCheck_failure [OF assms(1), of 100 skill] assms(2)
    by (auto simp: isSuccess_def skillCheckResult_zero)
next
  show "isSuccess (skillCheckResult 1 0)"
    by (simp add: skillCheckResult_zero isSuccess_def)
next
  assume "chatSession g"
  then show "\<exists>g'. handleSkillCheck g skill characterId 1 = Inr g'
           \<and> lastFailedSkillCheck g' = None
           \<and> sent g' = sent g @
               [Some \<lparr>rr_characterName = char_name c, rr_skill = cleanSkill skill,
                      rr_value = 0, rr_result = Critical, rr_dice = 1\<rparr>]"
    using handleSkillCheck_success [OF assms(1), of 1 skill] assms(2)
    by (auto simp: isSuccess_def skillCheckResult_zero)
qed


theorem C10_absent_skill_target_zero_witness:
  "findCharacter (characters (startedGame [createNewCharacter ''c1''])) ''c1''
     = Some (createNewCharacter ''c1'')
   \<and> skills (createNewCharacter ''c1'') (cleanSkill ''Occult'') = None
   \<and> (\<exists>g'. handleSkillCheck (startedGame [createNewCharacter ''c1'']) ''Occult'' ''c1'' 50 = Inr g'
         \<and> lastFailedSkillCheck g' =
             Some \<lparr>fc_characterId = ''c1'', fc_skill = ''Occult'', fc_value = 0,
                   fc_dice = 50, fc_result = Failure\<rparr>
         \<and> sent g' = [])
   \<and> (\<exists>g'. handleSkillCheck (startedGame [createNewCharacter ''c1'']) ''Occult'' ''c1'' 97 = Inr g'
         \<and> lastFailedSkillCheck g' =
             Some \<lparr>fc_characterId = ''c1'', fc_skill = ''Occult'', fc_value = 0,
                   fc_dice = 97, fc_result = Fumble\<rparr>
         \<and> sent g' = [])
   \<and> chatSession (startedGame [createNewCharacter ''c1''])
   \<and> (\<exists>g'. handleSkillCheck (startedGame [createNewCharacter ''c1'']) ''Occult'' ''c1'' 1 = Inr g'
         \<and> lastFailedSkillCheck g' = None
         \<and> sent g' =
             [Some \<lparr>rr_characterName = char_name (createNewCharacter ''c1''),
                    rr_skill = ''Occult'', rr_value = 0, rr_result = Critical,
                    rr_dice = 1\<rparr>])"
proof -
  have h1: "findCharacter (characters (startedGame [createNewCharacter ''c1''])) ''c1''
              = Some (createNewCharacter ''c1'')"
    by (simp add: findCharacter_def startedGame_def createNewCharacter_def)
  have h2: "skills (createNewCharacter ''c1'') (cleanSkill ''Occult'') = None"
    by (simp add: createNewCharacter_def)
  have h3: "chatSession (startedGame [createNewCharacter ''c1''])"
    by (simp add: startedGame_def)
  have s0: "sent (startedGame [createNewCharacter ''c1'']) = []"
    by (simp add: startedGame_def)
  have cs: "cleanSkill ''Occult'' = ''Occult''" by simp
  note t50 = C10_absent_skill_target_zero [OF h1 h2, of 50]
  note t97 = C10_absent_skill_target_zero [OF h1 h2, of 97]
  from t50 have a: "\<exists>g'. handleSkillCheck (startedGame [createNewCharacter ''c1'']) ''Occult'' ''c1'' 50 = Inr g'
         \<and> lastFailedSkillCheck g' =
             Some \<lparr>fc_characterId = ''c1'', fc_skill = ''Occult'', fc_value = 0,
                   fc_dice = 50, fc_result = Failure\<rparr>
         \<and> sent g' = []"
    unfolding s0 cs by simp
  from t97 have b: "\<exists>g'. handleSkillCheck (startedGame [createNewCharacter ''c1'']) ''Occult'' ''c1'' 97 = Inr g'
         \<and> lastFailedSkillCheck g' =
             Some \<lparr>fc_characterId = ''c1'', fc_skill = ''Occult'', fc_value = 0,
                   fc_dice = 97, fc_result = Fumble\<rparr>
         \<and> sent g' = []"
    unfolding s0 cs by simp
  from t50 h3 have c: "\<exists>g'. handleSkillCheck (startedGame [createNewCharacter ''c1'']) ''Occult'' ''c1'' 1 = Inr g'
         \<and> lastFailedSkillCheck g' = None
         \<and> sent g' =
             [Some \<lparr>rr_characterName = char_name (createNewCharacter ''c1''),
                    rr_skill = ''Occult'', rr_value = 0, rr_result = Critical,
                    rr_dice = 1\<rparr>]"
    unfolding s0 cs by simp
  show ?thesis using h1 h2 h3 a b c by blast
qed

lemma handleStatCheck_failure:
  assumes "findCharacter (characters g) characterId = Some c"
    and "\<not> isSuccess (statCheckResult diceRoll (statCheckTarget c stat multiplier))"
  shows "\<exists>g'. handleStatCheck g stat multiplier checkName characterId diceRoll = Inr g'
           \<and> lastFailedSkillCheck g' =
               Some \<lparr>fc_characterId = characterId, fc_skill = checkName,
                     fc_value = statCheckTarget c stat multiplier,
                     fc_dice = diceRoll,
                     fc_result = statCheckResult diceRoll (statCheckTarget c stat multiplier)\<rparr>
           \<and> sent g' = sent g \<and> chatSession g' = chatSession g \<and> isLoading g' = isLoading g
           \<and> characters g' = decrementMadnessDuration (characters g)"
  using assms by (simp add: handleStatCheck_def Let_def)

lemma handleDeclinePushRoll_forwards:
  assumes "lastFailedSkillCheck g = Some f" and "chatSession g"
    and "findCharacter (characters g) (fc_characterId f) = Some c"
  shows "\<exists>g'. handleDeclinePushRoll g = Inr g'
           \<and> sent g' = sent g @
               [Some \<lparr>rr_characterName = char_name c, rr_skill = fc_skill f,
                      rr_value = fc_value f, rr_result = fc_result f, rr_dice = fc_dice f\<rparr>]
           \<and> lastFailedSkillCheck g' = None \<and> \<not> pushRollOffered g'"
  using assms by (simp add: handleDeclinePushRoll_def pushRollOffered_def)

lemma handlePushRoll_forwards:
  assumes "lastFailedSkillCheck g = Some f" and "chatSession g"
    and "findCharacter (characters g) (fc_characterId f) = Some c"
  shows "\<exists>g'. handlePushRoll g diceRoll = Inr g'
           \<and> sent g' = sent g @
               [Some \<lparr>rr_characterName = char_name c, rr_skill = fc_skill f,
                      rr_value = fc_value f,
                      rr_result = pushRollResult diceRoll (fc_value f),
                      rr_dice = diceRoll\<rparr>]
           \<and> lastFailedSkillCheck g' = None \<and> \<not> pushRollOffered g'
           \<and> handlePushRoll g' nextRoll = Inr g' \<and> handleDeclinePushRoll g' = Inr g'"
  using assms
  by (simp add: handlePushRoll_def handleDeclinePushRoll_def pushRollOffered_def Let_def)


lemma push_after_failure:
  assumes lf: "lastFailedSkillCheck g =
                 Some \<lparr>fc_characterId = characterId, fc_skill = name, fc_value = target,
                       fc_dice = d1, fc_result = result\<rparr>"
    and chat: "chatSession g"
    and chars: "characters g = decrementMadnessDuration cs"
    and found: "findCharacter cs characterId = Some c"
  shows "(\<exists>g'. handleDeclinePushRoll g = Inr g'
            \<and> sent g' = sent g @
                [Some \<lparr>rr_characterName = char_name c, rr_skill = name, rr_value = target,
                       rr_result = result, rr_dice = d1\<rparr>]
            \<and> \<not> pushRollOffered g')
       \<and> (\<exists>g'. handlePushRoll g d2 = Inr g'
            \<and> sent g' = sent g @
                [Some \<lparr>rr_characterName = char_name c, rr_skill = name, rr_value = target,
                       rr_result = pushRollResult d2 target, rr_dice = d2\<rparr>]
            \<and> \<not> pushRollOffered g'
            \<and> handlePushRoll g' d3 = Inr g' \<and> handleDeclinePushRoll g' = Inr g')"
proof -
  have f: "findCharacter (characters g)
             (fc_characterId \<lparr>fc_characterId = characterId, fc_skill = name, fc_value = target,
                       fc_dice = d1, fc_result = result\<rparr>) = Some (decrementMadness1 c)"
    using chars found by (simp add: findCharacter_decrement)
  have n: "char_name (decrementMadness1 c) = char_name c" by simp
  from handleDeclinePushRoll_forwards [OF lf chat f]
  have a: "\<exists>g'. handleDeclinePushRoll g = Inr g'
            \<and> sent g' = sent g @
                [Some \<lparr>rr_characterName = char_name c, rr_skill = name, rr_value = target,
                       rr_result = result, rr_dice = d1\<rparr>]
            \<and> \<not> pushRollOffered g'"
    unfolding n by auto
  from handlePushRoll_forwards [OF lf chat f, of d2 d3]
  have b: "\<exists>g'. handlePushRoll g d2 = Inr g'
            \<and> sent g' = sent g @
                [Some \<lparr>rr_characterName = char_name c, rr_skill = name, rr_value = target,
                       rr_result = pushRollResult d2 target, rr_dice = d2\<rparr>]
            \<and> \<not> pushRollOffered g'
            \<and> handlePushRoll g' d3 = Inr g' \<and> handleDeclinePushRoll g' = Inr g'"
    unfolding n by auto
  from a b show ?thesis by (rule conjI)
qed

text \<open>
  C7. After a failed skill or stat check nothing has been sent to the narrator.
  Declining the push-roll sends the original result, with the same dice value, target
  and tier, and withdraws the offer. Accepting it resolves one new roll against the same
  target, sends that outcome whatever it is, and withdraws the offer: a further push or
  decline changes nothing.
\<close>

theorem C7_push_roll_protocol:
  assumes "chatSession g0"
    and "findCharacter (characters g0) characterId = Some c"
    and "check = handleSkillCheck g0 skill characterId d1 \<and> name = cleanSkill skill
           \<and> target = (case skills c (cleanSkill skill) of None \<Rightarrow> 0 | Some v \<Rightarrow> v)
           \<and> result = skillCheckResult d1 target
         \<or> check = handleStatCheck g0 stat multiplier checkName characterId d1
           \<and> name = checkName \<and> target = statCheckTarget c stat multiplier
           \<and> result = statCheckResult d1 target"
    and "\<not> isSuccess result"
  shows "\<exists>g. check = Inr g \<and> sent g = sent g0
           \<and> (\<exists>g'. handleDeclinePushRoll g = Inr g'
                \<and> sent g' = sent g0 @
                    [Some \<lparr>rr_characterName = char_name c, rr_skill = name,
                           rr_value = target, rr_result = result, rr_dice = d1\<rparr>]
                \<and> \<not> pushRollOffered g')
           \<and> (\<exists>g'. handlePushRoll g d2 = Inr g'
                \<and> sent g' = sent g0 @
                    [Some \<lparr>rr_characterName = char_name c, rr_skill = name,
                           rr_value = target, rr_result = pushRollResult d2 target,
                           rr_dice = d2\<rparr>]
                \<and> \<not> pushRollOffered g'
                \<and> handlePushRoll g' d3 = Inr g' \<and> handleDeclinePushRoll g' = Inr g')"
proof -
  from assms(3) have "\<exists>g. check = Inr g \<and> sent g = sent g0 \<and> chatSession g
      \<and> characters g = decrementMadnessDuration (characters g0)
      \<and> lastFailedSkillCheck g =
                 Some \<lparr>fc_characterId = characterId, fc_skill = name, fc_value = target,
                       fc_dice = d1, fc_result = result\<rparr>"
  proof
    assume a: "check = handleSkillCheck g0 skill characterId d1 \<and> name = cleanSkill skill
           \<and> target = (case skills c (cleanSkill skill) of None \<Rightarrow> 0 | Some v \<Rightarrow> v)
           \<and> result = skillCheckResult d1 target"
    with assms(4) have "\<not> isSuccess (skillCheckResult d1
        (case skills c (cleanSkill skill) of None \<Rightarrow> 0 | Some v \<Rightarrow> v))" by simp
    from handleSkillCheck_failure [OF assms(2) this] a assms(1) show ?thesis by auto
  next
    assume a: "check = handleStatCheck g0 stat multiplier checkName characterId d1
           \<and> name = checkName \<and> target = statCheckTarget c stat multiplier
           \<and> result = statCheckResult d1 target"
    with assms(4) have "\<not> isSuccess (statCheckResult d1 (statCheckTarget c stat multiplier))"
      by simp
    from handleStatCheck_failure [OF assms(2) this] a assms(1)
    show ?thesis by auto
  qed
  then obtain g where g: "check = Inr g" "sent g = sent g0" "chatSession g"
      "characters g = decrementMadnessDuration (characters g0)"
      "lastFailedSkillCheck g =
                 Some \<lparr>fc_characterId = characterId, fc_skill = name, fc_value = target,
                       fc_dice = d1, fc_result = result\<rparr>"
    by blast
  from push_after_failure [OF g(5) g(3) g(4) assms(2), of d2 d3] g(1) g(2)
  show ?thesis by simp
qed


theorem C7_push_roll_protocol_witness:
  "chatSession (startedGame [createNewCharacter ''c1''])
   \<and> findCharacter (characters (startedGame [createNewCharacter ''c1''])) ''c1''
       = Some (createNewCharacter ''c1'')
   \<and> \<not> isSuccess (skillCheckResult 50 0)
   \<and> (\<exists>g. handleSkillCheck (startedGame [createNewCharacter ''c1'']) ''Occult'' ''c1'' 50 = Inr g
         \<and> sent g = []
         \<and> (\<exists>g'. handleDeclinePushRoll g = Inr g'
               \<and> sent g' =
                   [Some \<lparr>rr_characterName = char_name (createNewCharacter ''c1''),
                          rr_skill = ''Occult'', rr_value = 0, rr_result = Failure,
                          rr_dice = 50\<rparr>]
               \<and> \<not> pushRollOffered g')
         \<and> (\<exists>g'. handlePushRoll g 1 = Inr g'
               \<and> sent g' =
                   [Some \<lparr>rr_characterName = char_name (createNewCharacter ''c1''),
                          rr_skill = ''Occult'', rr_value = 0, rr_result = Critical,
                          rr_dice = 1\<rparr>]
               \<and> \<not> pushRollOffered g'
               \<and> handlePushRoll g' 1 = Inr g' \<and> handleDeclinePushRoll g' = Inr g'))
   \<and> \<not> isSuccess (statCheckResult 80 50)
   \<and> (\<exists>g. handleStatCheck (startedGame [createNewCharacter ''c1'']) statSTR MultUndefined ''STRx5''
            ''c1'' 80 = Inr g
         \<and> sent g = []
         \<and> (\<exists>g'. handleDeclinePushRoll g = Inr g'
               \<and> sent g' =
                   [Some \<lparr>rr_characterName = char_name (createNewCharacter ''c1''),
                          rr_skill = ''STRx5'', rr_value = 50, rr_result = Failure,
                          rr_dice = 80\<rparr>]
               \<and> \<not> pushRollOffered g')
         \<and> (\<exists>g'. handlePushRoll g 60 = Inr g'
               \<and> sent g' =
                   [Some \<lparr>rr_characterName = char_name (createNewCharacter ''c1''),
                          rr_skill = ''STRx5'', rr_value = 50, rr_result = Failure,
                          rr_dice = 60\<rparr>]
               \<and> \<not> pushRollOffered g'
               \<and> handlePushRoll g' 1 = Inr g' \<and> handleDeclinePushRoll g' = Inr g'))"
proof -
  have h1: "chatSession (startedGame [createNewCharacter ''c1''])"
    by (simp add: startedGame_def)
  have h2: "findCharacter (characters (startedGame [createNewCharacter ''c1''])) ''c1''
              = Some (createNewCharacter ''c1'')"
    by (simp add: findCharacter_def startedGame_def createNewCharacter_def)
  have s0: "sent (startedGame [createNewCharacter ''c1'']) = []"
    by (simp add: startedGame_def)
  have r1: "skillCheckResult 50 0 = Failure" "pushRollResult 1 0 = Critical"
    "statCheckResult 80 50 = Failure" "pushRollResult 60 50 = Failure"
    by (simp_all add: skillCheckResult_def pushRollResult_def statCheckResult_def)
  have h3: "handleSkillCheck (startedGame [createNewCharacter ''c1'']) ''Occult'' ''c1'' 50
              = handleSkillCheck (startedGame [createNewCharacter ''c1'']) ''Occult'' ''c1'' 50
            \<and> ''Occult'' = cleanSkill ''Occult''
            \<and> 0 = (case skills (createNewCharacter ''c1'') (cleanSkill ''Occult'') of
                      None \<Rightarrow> 0 | Some v \<Rightarrow> v)
            \<and> Failure = skillCheckResult 50 0
          \<or> handleSkillCheck (startedGame [createNewCharacter ''c1'']) ''Occult'' ''c1'' 50
              = handleStatCheck (startedGame [createNewCharacter ''c1'']) statSTR MultUndefined
                  ''STRx5'' ''c1'' 50
            \<and> ''Occult'' = ''STRx5''
            \<and> 0 = statCheckTarget (createNewCharacter ''c1'') statSTR MultUndefined
            \<and> Failure = statCheckResult 50 0"
    by (simp add: createNewCharacter_def r1)
  have h4: "\<not> isSuccess Failure" by (simp add: isSuccess_def)
  have k3: "handleStatCheck (startedGame [createNewCharacter ''c1'']) statSTR MultUndefined ''STRx5''
              ''c1'' 80
              = handleSkillCheck (startedGame [createNewCharacter ''c1'']) ''Occult'' ''c1'' 80
            \<and> ''STRx5'' = cleanSkill ''Occult''
            \<and> 50 = (case skills (createNewCharacter ''c1'') (cleanSkill ''Occult'') of
                      None \<Rightarrow> 0 | Some v \<Rightarrow> v)
            \<and> Failure = skillCheckResult 80 50
          \<or> handleStatCheck (startedGame [createNewCharacter ''c1'']) statSTR MultUndefined ''STRx5''
              ''c1'' 80
              = handleStatCheck (startedGame [createNewCharacter ''c1'']) statSTR MultUndefined
                  ''STRx5'' ''c1'' 80
            \<and> ''STRx5'' = ''STRx5''
            \<and> 50 = statCheckTarget (createNewCharacter ''c1'') statSTR MultUndefined
            \<and> Failure = statCheckResult 80 50"
    by (simp add: createNewCharacter_def statCheckTarget_def r1)
  note a = C7_push_roll_protocol [OF h1 h2 h3 h4, of 1 1, unfolded s0 r1, simplified]
  note b = C7_push_roll_protocol [OF h1 h2 k3 h4, of 60 1, unfolded s0 r1, simplified]
  show ?thesis using h1 h2 a b by (simp add: r1 isSuccess_def)
qed


section \<open>Character creation (CharacterCreationScreen.tsx)\<close>

text \<open>
  The tables \<^verbatim>\<open>ALL_SKILLS\<close>, \<^verbatim>\<open>INITIAL_SKILLS\<close> and \<^verbatim>\<open>DYNAMIC_BASE_SKILLS\<close> are
  imported from a constants module; they are parameters of the model. The table
  of allocations maps a character id to a map from skill names to the two kinds of
  points.
\<close>

record constants =
  ALL_SKILLS :: "string list"
  INITIAL_SKILLS :: "string \<rightharpoonup> int"
  DYNAMIC_BASE_SKILLS :: "string \<rightharpoonup> (stats \<Rightarrow> int)"

record SkillAllocation =
  occ :: int
  int_pts :: int

type_synonym CharacterAllocations = "string \<rightharpoonup> SkillAllocation"

type_synonym AllAllocations = "string \<rightharpoonup> CharacterAllocations"

datatype allocType = occType | intType

definition getBaseSkillValue :: "constants \<Rightarrow> string \<Rightarrow> stats \<Rightarrow> customSkill list \<Rightarrow> int" where
  "getBaseSkillValue K skillName st customSkills' =
     (case DYNAMIC_BASE_SKILLS K skillName of
        Some dynamicCalc \<Rightarrow> dynamicCalc st
      | None \<Rightarrow>
          (case List.find (\<lambda>skill. cs_name skill = skillName) customSkills' of
             Some customSkill \<Rightarrow> baseValue customSkill
           | None \<Rightarrow> (case INITIAL_SKILLS K skillName of Some v \<Rightarrow> v | None \<Rightarrow> 0)))"

definition getStatRollNotation :: "statName \<Rightarrow> string" where
  "getStatRollNotation statName' =
     (if statName' = statSIZ \<or> statName' = statINT then ''2d6+6''
      else if statName' = statEDU then ''3d6+3''
      else ''3d6'')"

text \<open>\<^verbatim>\<open>updateCharacter(id, newCharData)\<close> with a function as the update.\<close>

definition updateCharacter ::
  "string \<Rightarrow> (character \<Rightarrow> character) \<Rightarrow> character list \<Rightarrow> character list" where
  "updateCharacter cid newCharData prev =
     map (\<lambda>c. if char_id c = cid then newCharData c else c) prev"

text \<open>\<^verbatim>\<open>allocations[id]?.[skillName] || { occ: 0, int: 0 }\<close>\<close>

definition allocOrZero :: "CharacterAllocations option \<Rightarrow> string \<Rightarrow> SkillAllocation" where
  "allocOrZero charAllocs skillName =
     (case charAllocs of
        None \<Rightarrow> \<lparr>occ = 0, int_pts = 0\<rparr>
      | Some a \<Rightarrow> (case a skillName of None \<Rightarrow> \<lparr>occ = 0, int_pts = 0\<rparr> | Some x \<Rightarrow> x))"

definition allSkillNames :: "constants \<Rightarrow> character \<Rightarrow> string list" where
  "allSkillNames K char = ALL_SKILLS K @ map cs_name (customSkills char)"

text \<open>
  The function that \<^verbatim>\<open>handleStatUpdate\<close> passes to \<^verbatim>\<open>updateCharacter\<close>;
  \<^verbatim>\<open>charAllocs\<close> is \<^verbatim>\<open>allocations[id]\<close>.
\<close>

definition statUpdate ::
  "constants \<Rightarrow> CharacterAllocations option \<Rightarrow> statName \<Rightarrow> int \<Rightarrow> character \<Rightarrow> character" where
  "statUpdate K charAllocs statName' val char =
     (let newStats = setStat (stats char) statName' val;
          newHP = \<lceil>(of_int (sCON newStats + sSIZ newStats) :: rat) / 2\<rceil>;
          newMP = sPOW newStats;
          newSAN = sPOW newStats * 5;
          newSkills =
            (if statName' = statDEX \<or> statName' = statEDU then
               fold (\<lambda>skillName sk.
                       let base = getBaseSkillValue K skillName newStats (customSkills char);
                           alloc = allocOrZero charAllocs skillName
                       in sk(skillName \<mapsto> base + occ alloc + int_pts alloc))
                    (allSkillNames K char) (skills char)
             else skills char)
      in char\<lparr>stats := newStats,
              hp := \<lparr>current = newHP, maxv = newHP\<rparr>,
              mp := \<lparr>current = newMP, maxv = newMP\<rparr>,
              san := \<lparr>current = (if current (san char) > newSAN then newSAN
                                   else current (san char)),
                      maxv = newSAN\<rparr>,
              skills := newSkills\<rparr>)"

definition handleStatUpdate ::
  "constants \<Rightarrow> AllAllocations \<Rightarrow> string \<Rightarrow> statName \<Rightarrow> int \<Rightarrow> character list
   \<Rightarrow> character list" where
  "handleStatUpdate K allocations cid statName' val chars =
     updateCharacter cid (statUpdate K (allocations cid) statName' val) chars"

text \<open>
  \<^verbatim>\<open>handleStatRollRequest\<close>: the attribute's notation is rolled and the result is handed
  to \<^verbatim>\<open>handleStatUpdate\<close>.
\<close>

definition handleStatRollRequest ::
  "constants \<Rightarrow> AllAllocations \<Rightarrow> rng \<Rightarrow> string \<Rightarrow> statName \<Rightarrow> character list
   \<Rightarrow> character list \<times> rng" where
  "handleStatRollRequest K allocations rs activeId statName' chars =
     (case parseAndRoll rs (getStatRollNotation statName') of
        (result, rs') \<Rightarrow> (handleStatUpdate K allocations activeId statName' result chars, rs'))"

text \<open>
  The loop of \<^verbatim>\<open>handleRollAllStats\<close> over the keys of the stats object, in the order in
  which \<^verbatim>\<open>createNewCharacter\<close> writes them.
\<close>

definition statKeys :: "statName list" where
  "statKeys = [statSTR, statCON, statPOW, statDEX, statAPP, statSIZ, statINT, statEDU]"

definition rollAllStats :: "rng \<Rightarrow> stats \<Rightarrow> stats \<times> rng" where
  "rollAllStats rs st =
     fold (\<lambda>statName' (newStats, rs1).
             case parseAndRoll rs1 (getStatRollNotation statName') of
               (v, rs2) \<Rightarrow> (setStat newStats statName' v, rs2))
          statKeys (st, rs)"

text \<open>The function that \<^verbatim>\<open>handleRollAllStats\<close> passes to \<^verbatim>\<open>updateCharacter\<close>.\<close>

definition rollAllUpdate ::
  "constants \<Rightarrow> CharacterAllocations option \<Rightarrow> stats \<Rightarrow> character \<Rightarrow> character" where
  "rollAllUpdate K charAllocs newStats char =
     (let newHP = \<lceil>(of_int (sCON newStats + sSIZ newStats) :: rat) / 2\<rceil>;
          newMP = sPOW newStats;
          newSAN = sPOW newStats * 5;
          newSkills =
            fold (\<lambda>skillName sk.
                    let base = getBaseSkillValue K skillName newStats (customSkills char);
                        alloc = allocOrZero charAllocs skillName;
                        tot = base + occ alloc + int_pts alloc
                    in sk(skillName \<mapsto> (if tot > 99 then 99 else tot)))
                 (allSkillNames K char) (skills char)
      in char\<lparr>stats := newStats,
              hp := \<lparr>current = newHP, maxv = newHP\<rparr>,
              mp := \<lparr>current = newMP, maxv = newMP\<rparr>,
              san := \<lparr>current = (if current (san char) > newSAN then newSAN
                                   else current (san char)),
                      maxv = newSAN\<rparr>,
              skills := newSkills\<rparr>)"

text \<open>
  \<^verbatim>\<open>handleRollAllStats\<close>; nothing happens without an active character. The eight rolls
  are made for the character with the active id.
\<close>

definition handleRollAllStats ::
  "constants \<Rightarrow> AllAllocations \<Rightarrow> rng \<Rightarrow> string option \<Rightarrow> character list
   \<Rightarrow> character list \<times> rng" where
  "handleRollAllStats K allocations rs activeCharacterId chars =
     (case activeCharacterId of
        None \<Rightarrow> (chars, rs)
      | Some cid \<Rightarrow>
          (case List.find (\<lambda>c. char_id c = cid) chars of
             None \<Rightarrow> (chars, rs)
           | Some char \<Rightarrow>
               (case rollAllStats rs (stats char) of
                  (newStats, rs') \<Rightarrow>
                    (updateCharacter cid (rollAllUpdate K (allocations cid) newStats) chars,
                     rs'))))"

text \<open>The values of \<^verbatim>\<open>derivedData\<close> that depend on EDU and INT.\<close>

definition occupationPoints :: "character \<Rightarrow> int" where
  "occupationPoints activeCharacter = sEDU (stats activeCharacter) * 20"

definition interestPoints :: "character \<Rightarrow> int" where
  "interestPoints activeCharacter = sINT (stats activeCharacter) * 10"

text \<open>
  \<^verbatim>\<open>handleSkillAllocation(charId, skillName, type, value)\<close>. The entry of the skill is
  copied and one of its fields overwritten. When the table has no entry for the skill
  the other field is \<^verbatim>\<open>undefined\<close> and the stored total is \<^verbatim>\<open>NaN\<close>, which is not an
  integer: the model answers \<^verbatim>\<open>None\<close> there.
\<close>

definition handleSkillAllocation ::
  "constants \<Rightarrow> AllAllocations \<Rightarrow> string \<Rightarrow> string \<Rightarrow> allocType \<Rightarrow> int \<Rightarrow> character list
   \<Rightarrow> (AllAllocations \<times> character list) option" where
  "handleSkillAllocation K allocations charId skillName ty val chars =
     (let val1 = (if val < 0 then 0 else val);
          charAllocs = (case allocations charId of None \<Rightarrow> Map.empty | Some a \<Rightarrow> a)
      in case charAllocs skillName of
           None \<Rightarrow> None
         | Some old \<Rightarrow>
             let entry = (case ty of occType \<Rightarrow> old\<lparr>occ := val1\<rparr>
                                    | intType \<Rightarrow> old\<lparr>int_pts := val1\<rparr>);
                 newAllocs = charAllocs(skillName \<mapsto> entry)
             in Some (allocations(charId \<mapsto> newAllocs),
                      updateCharacter charId
                        (\<lambda>char.
                           let base = getBaseSkillValue K skillName (stats char)
                                        (customSkills char);
                               newSkillValue = base + occ entry + int_pts entry
                           in char\<lparr>skills := (skills char)(skillName \<mapsto> newSkillValue)\<rparr>)
                        chars))"


subsection \<open>Derived values and skill totals\<close>

lemma statUpdate_fields:
  "stats (statUpdate K a sn v c) = setStat (stats c) sn v"
  "hp (statUpdate K a sn v c) =
     \<lparr>current = \<lceil>(of_int (sCON (setStat (stats c) sn v) + sSIZ (setStat (stats c) sn v)) :: rat) / 2\<rceil>,
      maxv = \<lceil>(of_int (sCON (setStat (stats c) sn v) + sSIZ (setStat (stats c) sn v)) :: rat) / 2\<rceil>\<rparr>"
  "mp (statUpdate K a sn v c) =
     \<lparr>current = sPOW (setStat (stats c) sn v), maxv = sPOW (setStat (stats c) sn v)\<rparr>"
  "san (statUpdate K a sn v c) =
     \<lparr>current = (if current (san c) > sPOW (setStat (stats c) sn v) * 5
                 then sPOW (setStat (stats c) sn v) * 5 else current (san c)),
      maxv = sPOW (setStat (stats c) sn v) * 5\<rparr>"
  by (simp_all add: statUpdate_def Let_def)

lemma statUpdate_frame [simp]:
  "char_id (statUpdate K a sn v c) = char_id c"
  "char_name (statUpdate K a sn v c) = char_name c"
  "customSkills (statUpdate K a sn v c) = customSkills c"
  "madness (statUpdate K a sn v c) = madness c"
  by (simp_all add: statUpdate_def Let_def)

lemma rollAllUpdate_frame [simp]:
  "char_id (rollAllUpdate K a st c) = char_id c"
  "char_name (rollAllUpdate K a st c) = char_name c"
  "customSkills (rollAllUpdate K a st c) = customSkills c"
  "madness (rollAllUpdate K a st c) = madness c"
  by (simp_all add: rollAllUpdate_def Let_def)

lemma rollAllUpdate_fields:
  "stats (rollAllUpdate K a st c) = st"
  "hp (rollAllUpdate K a st c) =
     \<lparr>current = \<lceil>(of_int (sCON st + sSIZ st) :: rat) / 2\<rceil>,
      maxv = \<lceil>(of_int (sCON st + sSIZ st) :: rat) / 2\<rceil>\<rparr>"
  "mp (rollAllUpdate K a st c) = \<lparr>current = sPOW st, maxv = sPOW st\<rparr>"
  "san (rollAllUpdate K a st c) =
     \<lparr>current = (if current (san c) > sPOW st * 5 then sPOW st * 5 else current (san c)),
      maxv = sPOW st * 5\<rparr>"
  by (simp_all add: rollAllUpdate_def Let_def)

text \<open>
  C6. After an attribute update, by \<^verbatim>\<open>handleStatUpdate\<close> or by \<^verbatim>\<open>handleRollAllStats\<close>,
  the maximum of HP is the ceiling of (CON + SIZ) / 2, the maximum of MP is POW, the
  maximum of SAN is POW times 5, the occupation points are EDU times 20 and the interest
  points INT times 10, all over the new attributes. Setting each of the eight attributes
  of a new character to 13 gives HP 13, MP 13, SAN 65, 260 occupation points and 130
  interest points.
\<close>

theorem C6_derived_values:
  "maxv (hp (statUpdate K a sn v c))
     = \<lceil>(of_int (sCON (stats (statUpdate K a sn v c)) + sSIZ (stats (statUpdate K a sn v c))) :: rat) / 2\<rceil>
   \<and> maxv (mp (statUpdate K a sn v c)) = sPOW (stats (statUpdate K a sn v c))
   \<and> maxv (san (statUpdate K a sn v c)) = sPOW (stats (statUpdate K a sn v c)) * 5
   \<and> occupationPoints (statUpdate K a sn v c) = sEDU (stats (statUpdate K a sn v c)) * 20
   \<and> interestPoints (statUpdate K a sn v c) = sINT (stats (statUpdate K a sn v c)) * 10
   \<and> getStat (stats (statUpdate K a sn v c)) sn = v
   \<and> maxv (hp (rollAllUpdate K a st c)) = \<lceil>(of_int (sCON st + sSIZ st) :: rat) / 2\<rceil>
   \<and> maxv (mp (rollAllUpdate K a st c)) = sPOW st
   \<and> maxv (san (rollAllUpdate K a st c)) = sPOW st * 5
   \<and> occupationPoints (rollAllUpdate K a st c) = sEDU st * 20
   \<and> interestPoints (rollAllUpdate K a st c) = sINT st * 10
   \<and> map (\<lambda>c. (maxv (hp c), maxv (mp c), maxv (san c), occupationPoints c, interestPoints c))
        (fold (\<lambda>statName' chars. handleStatUpdate K al ''c1'' statName' 13 chars) statKeys
           [createNewCharacter ''c1''])
      = [(13, 13, 65, 260, 130)]"
proof -
  have g: "getStat (setStat s sn v) sn = v" for s
    by (cases sn) simp_all
  have e: "map (\<lambda>c. (maxv (hp c), maxv (mp c), maxv (san c), occupationPoints c, interestPoints c))
        (fold (\<lambda>statName' chars. handleStatUpdate K al ''c1'' statName' 13 chars) statKeys
           [createNewCharacter ''c1''])
      = [(13, 13, 65, 260, 130)]"
    by (simp add: statKeys_def handleStatUpdate_def updateCharacter_def createNewCharacter_def
        statUpdate_fields occupationPoints_def interestPoints_def)
  show ?thesis
    using e by (simp add: statUpdate_fields rollAllUpdate_fields occupationPoints_def
        interestPoints_def g)
qed

text \<open>
  C9. An attribute update, entered or rolled, sets the current HP to the new maximum of
  HP and the current MP to the new maximum of MP, whatever they were before; the
  current SAN becomes the smaller of its old value and the new maximum of SAN, so it is
  never raised.
\<close>

theorem C9_current_reset:
  "current (hp (statUpdate K a sn v c)) = maxv (hp (statUpdate K a sn v c))
   \<and> current (mp (statUpdate K a sn v c)) = maxv (mp (statUpdate K a sn v c))
   \<and> current (san (statUpdate K a sn v c))
       = min (current (san c)) (maxv (san (statUpdate K a sn v c)))
   \<and> current (san (statUpdate K a sn v c)) \<le> current (san c)
   \<and> current (hp (rollAllUpdate K a st c)) = maxv (hp (rollAllUpdate K a st c))
   \<and> current (mp (rollAllUpdate K a st c)) = maxv (mp (rollAllUpdate K a st c))
   \<and> current (san (rollAllUpdate K a st c))
       = min (current (san c)) (maxv (san (rollAllUpdate K a st c)))
   \<and> current (san (rollAllUpdate K a st c)) \<le> current (san c)
   \<and> fst (handleStatRollRequest K al rs cid sn chars)
       = handleStatUpdate K al cid sn (fst (parseAndRoll rs (getStatRollNotation sn))) chars"
  by (simp add: statUpdate_fields rollAllUpdate_fields min_def handleStatRollRequest_def
      split: prod.splits)


lemma fold_skill_update:
  "fold (\<lambda>n sk. sk(n \<mapsto> f n)) names sk0 x = (if x \<in> set names then Some (f x) else sk0 x)"
  by (induction names arbitrary: sk0) auto

lemma statUpdate_skill_total:
  assumes "sn = statDEX \<or> sn = statEDU" and "skillName \<in> set (allSkillNames K c)"
  shows "skills (statUpdate K a sn v c) skillName
           = Some (getBaseSkillValue K skillName (setStat (stats c) sn v) (customSkills c)
                   + occ (allocOrZero a skillName) + int_pts (allocOrZero a skillName))"
  using assms by (auto simp: statUpdate_def Let_def fold_skill_update)

text \<open>
  C1. The stored total of a skill is meant to be the base value plus both kinds of
  points, capped at 99. \<^verbatim>\<open>handleSkillAllocation\<close> and \<^verbatim>\<open>handleStatUpdate\<close> store the sum
  without the cap: on a new character, 100 occupation points on a skill of the standard
  list with a base value that is not negative give a stored total above 99, both when
  they are allocated and when DEX is updated afterwards.
\<close>

theorem C1_allocation_exceeds_99:
  assumes "0 \<le> getBaseSkillValue K skillName (stats (createNewCharacter cid)) []"
    and "skillName \<in> set (ALL_SKILLS K)"
  shows "(\<exists>al' c'.
           handleSkillAllocation K [cid \<mapsto> [skillName \<mapsto> \<lparr>occ = 0, int_pts = 0\<rparr>]] cid skillName
             occType 100 [createNewCharacter cid] = Some (al', [c'])
           \<and> skills c' skillName
               = Some (getBaseSkillValue K skillName (stats (createNewCharacter cid)) [] + 100))
         \<and> skills (statUpdate K (Some [skillName \<mapsto> \<lparr>occ = 100, int_pts = 0\<rparr>]) statDEX 10
                     (createNewCharacter cid)) skillName
               = Some (getBaseSkillValue K skillName (stats (createNewCharacter cid)) [] + 100)
         \<and> 99 < getBaseSkillValue K skillName (stats (createNewCharacter cid)) [] + 100"
proof -
  have a: "\<exists>al' c'.
           handleSkillAllocation K [cid \<mapsto> [skillName \<mapsto> \<lparr>occ = 0, int_pts = 0\<rparr>]] cid skillName
             occType 100 [createNewCharacter cid] = Some (al', [c'])
           \<and> skills c' skillName
               = Some (getBaseSkillValue K skillName (stats (createNewCharacter cid)) [] + 100)"
    by (simp add: handleSkillAllocation_def updateCharacter_def Let_def createNewCharacter_def)
  have n: "skillName \<in> set (allSkillNames K (createNewCharacter cid))"
    using assms(2) by (simp add: allSkillNames_def)
  have st: "setStat (stats (createNewCharacter cid)) statDEX 10 = stats (createNewCharacter cid)"
    by (simp add: createNewCharacter_def)
  have st2: "(stats (createNewCharacter cid))\<lparr>sDEX := 10\<rparr> = stats (createNewCharacter cid)"
    by (simp add: createNewCharacter_def)
  have cs: "customSkills (createNewCharacter cid) = []"
    by (simp add: createNewCharacter_def)
  have b: "skills (statUpdate K (Some [skillName \<mapsto> \<lparr>occ = 100, int_pts = 0\<rparr>]) statDEX 10
                     (createNewCharacter cid)) skillName
               = Some (getBaseSkillValue K skillName (stats (createNewCharacter cid)) [] + 100)"
    using statUpdate_skill_total [OF _ n, of statDEX "Some [skillName \<mapsto> \<lparr>occ = 100, int_pts = 0\<rparr>]" 10]
    by (simp add: st2 cs allocOrZero_def)
  from a b assms(1) show ?thesis by simp
qed

theorem C1_allocation_exceeds_99_witness:
  "0 \<le> getBaseSkillValue \<lparr>ALL_SKILLS = [''Occult''], INITIAL_SKILLS = [''Occult'' \<mapsto> 5],
                             DYNAMIC_BASE_SKILLS = Map.empty\<rparr>
          ''Occult'' (stats (createNewCharacter ''c1'')) []
   \<and> ''Occult'' \<in> set (ALL_SKILLS \<lparr>ALL_SKILLS = [''Occult''],
                                     INITIAL_SKILLS = [''Occult'' \<mapsto> 5],
                                     DYNAMIC_BASE_SKILLS = Map.empty\<rparr>)
   \<and> (\<exists>al' c'.
         handleSkillAllocation \<lparr>ALL_SKILLS = [''Occult''], INITIAL_SKILLS = [''Occult'' \<mapsto> 5],
                                DYNAMIC_BASE_SKILLS = Map.empty\<rparr>
           [''c1'' \<mapsto> [''Occult'' \<mapsto> \<lparr>occ = 0, int_pts = 0\<rparr>]] ''c1'' ''Occult''
           occType 100 [createNewCharacter ''c1''] = Some (al', [c'])
         \<and> skills c' ''Occult'' = Some 105)
   \<and> skills (statUpdate \<lparr>ALL_SKILLS = [''Occult''], INITIAL_SKILLS = [''Occult'' \<mapsto> 5],
                          DYNAMIC_BASE_SKILLS = Map.empty\<rparr>
               (Some [''Occult'' \<mapsto> \<lparr>occ = 100, int_pts = 0\<rparr>]) statDEX 10
               (createNewCharacter ''c1'')) ''Occult'' = Some 105"
proof -
  have b: "getBaseSkillValue \<lparr>ALL_SKILLS = [''Occult''], INITIAL_SKILLS = [''Occult'' \<mapsto> 5],
                             DYNAMIC_BASE_SKILLS = Map.empty\<rparr>
          ''Occult'' (stats (createNewCharacter ''c1'')) [] = 5"
    by (simp add: getBaseSkillValue_def)
  then have h: "0 \<le> getBaseSkillValue \<lparr>ALL_SKILLS = [''Occult''], INITIAL_SKILLS = [''Occult'' \<mapsto> 5],
                             DYNAMIC_BASE_SKILLS = Map.empty\<rparr>
          ''Occult'' (stats (createNewCharacter ''c1'')) []"
    by simp
  have m: "''Occult'' \<in> set (ALL_SKILLS \<lparr>ALL_SKILLS = [''Occult''],
                                     INITIAL_SKILLS = [''Occult'' \<mapsto> 5],
                                     DYNAMIC_BASE_SKILLS = Map.empty\<rparr>)"
    by simp
  from C1_allocation_exceeds_99 [OF h m] b h m show ?thesis by simp
qed


section \<open>Sanity checks and madness (GamePlayScreen.tsx)\<close>

text \<open>
  The two symptom tables hold eight Japanese sentences each; every entry below stands
  for the sentence at the same position of the source's table.
\<close>

definition TEMPORARY_MADNESS_SYMPTOMS :: "string list" where
  "TEMPORARY_MADNESS_SYMPTOMS =
     [''temporary symptom 0'', ''temporary symptom 1'', ''temporary symptom 2'',
      ''temporary symptom 3'', ''temporary symptom 4'', ''temporary symptom 5'',
      ''temporary symptom 6'', ''temporary symptom 7'']"

definition INDEFINITE_MADNESS_SYMPTOMS :: "string list" where
  "INDEFINITE_MADNESS_SYMPTOMS =
     [''indefinite symptom 0'', ''indefinite symptom 1'', ''indefinite symptom 2'',
      ''indefinite symptom 3'', ''indefinite symptom 4'', ''indefinite symptom 5'',
      ''indefinite symptom 6'', ''indefinite symptom 7'']"

text \<open>
  \<^verbatim>\<open>table[Math.floor(r * table.length)]\<close>; outside the table JavaScript gives
  \<^verbatim>\<open>undefined\<close>, which the empty string stands for.
\<close>

definition pickSymptom :: "string list \<Rightarrow> rat \<Rightarrow> string" where
  "pickSymptom table r =
     (let i = \<lfloor>r * of_nat (length table)\<rfloor>
      in if 0 \<le> i \<and> i < int (length table) then table ! nat i else [])"

text \<open>
  \<^verbatim>\<open>checkForMadness(character, sanLoss)\<close>. The factor 0.2 is the rational 1/5; for an
  integer SAN maximum the rounding of the floating-point product does not move the
  ceiling. The result has the shape of the character's madness field.
\<close>

definition checkForMadness :: "rng \<Rightarrow> character \<Rightarrow> int \<Rightarrow> madness \<times> rng" where
  "checkForMadness rs character sanLoss =
     (let indefiniteMadnessThreshold = \<lceil>(of_int (maxv (san character)) :: rat) * (2 / 10)\<rceil>
      in if sanLoss \<ge> indefiniteMadnessThreshold then
           (case mathRandom rs of
              (r, rs1) \<Rightarrow>
                (\<lparr>mtype = Some indefinite,
                  description = pickSymptom INDEFINITE_MADNESS_SYMPTOMS r,
                  duration = None\<rparr>, rs1))
         else if sanLoss \<ge> 5 then
           (case mathRandom rs of
              (r1, rs1) \<Rightarrow>
                (case mathRandom rs1 of
                   (r2, rs2) \<Rightarrow>
                     (\<lparr>mtype = Some temporary,
                       description = pickSymptom TEMPORARY_MADNESS_SYMPTOMS r1,
                       duration = Some (\<lfloor>r2 * 6\<rfloor> + 1)\<rparr>, rs2)))
         else (\<lparr>mtype = None, description = [], duration = None\<rparr>, rs))"

text \<open>
  The update that every branch of \<^verbatim>\<open>handleSanityCheck\<close> passes to
  \<^verbatim>\<open>updateCharacterState\<close>: the new current SAN, and the new madness when one set in.
\<close>

definition sanityUpdate :: "int \<Rightarrow> madness \<Rightarrow> character \<Rightarrow> character" where
  "sanityUpdate newSan madnessResult c =
     c\<lparr>san := (san c)\<lparr>current := newSan\<rparr>,
       madness := (if mtype madnessResult \<noteq> None
                   then Some \<lparr>mtype = mtype madnessResult,
                              description = description madnessResult,
                              duration = duration madnessResult\<rparr>
                   else madness c)\<rparr>"

text \<open>\<^verbatim>\<open>handleSystemAction\<close>: the message to the narrator carries no roll result.\<close>

definition handleSystemAction :: "game \<Rightarrow> game" where
  "handleSystemAction g =
     (if \<not> chatSession g then g
      else g\<lparr>lastFailedSkillCheck := None, isLoading := True, sent := sent g @ [None]\<rparr>)"

text \<open>\<^verbatim>\<open>roll.split('/')\<close>\<close>

fun splitSlash :: "string \<Rightarrow> string list" where
  "splitSlash [] = [[]]"
| "splitSlash (x # xs) =
     (if x = CHR ''/'' then [] # splitSlash xs
      else (case splitSlash xs of [] \<Rightarrow> [[x]] | p # ps \<Rightarrow> (x # p) # ps))"

text \<open>
  One round of the \<^verbatim>\<open>forEach\<close> in \<^verbatim>\<open>processAllCharactersSanCheck\<close>. The state is the
  list of characters, the random draws, \<^verbatim>\<open>anyMadness\<close> and \<^verbatim>\<open>gameOverCharacter\<close>.
\<close>

type_synonym sanState = "character list \<times> rng \<times> bool \<times> character option"

definition sanStep ::
  "int \<Rightarrow> int \<Rightarrow> character \<times> int \<times> bool \<Rightarrow> sanState \<Rightarrow> sanState" where
  "sanStep successLoss failureLoss entry st =
     (case entry of
        (character, sanRoll, success) \<Rightarrow>
          (case st of
             (chars, rs, anyMadness, gameOverCharacter) \<Rightarrow>
               let currentSan = current (san character);
                   actualLoss = (if success then successLoss else failureLoss);
                   newSan = max 0 (currentSan - actualLoss);
                   mr = (if actualLoss > 0 then checkForMadness rs character actualLoss
                         else (\<lparr>mtype = None, description = [], duration = None\<rparr>, rs))
               in (updateCharacterState (char_id character) (sanityUpdate newSan (fst mr)) chars,
                   snd mr,
                   anyMadness \<or> mtype (fst mr) \<noteq> None,
                   (if newSan \<le> 0 \<and> gameOverCharacter = None then Some character
                    else gameOverCharacter))))"

definition processAllCharactersSanCheck ::
  "game \<Rightarrow> modal \<Rightarrow> (character \<times> int \<times> bool) list \<Rightarrow> int \<Rightarrow> int \<Rightarrow> game \<times> modal" where
  "processAllCharactersSanCheck g m results successLoss failureLoss =
     (case fold (sanStep successLoss failureLoss) results (characters g, fst m, False, None) of
        (chars, rs', anyMadness, gameOverCharacter) \<Rightarrow>
          if gameOverCharacter \<noteq> None
          then (g\<lparr>characters := chars, gameOver := True, isLoading := False\<rparr>, (rs', snd m))
          else (handleSystemAction (g\<lparr>characters := chars\<rparr>), (rs', snd m)))"

text \<open>
  The results of the shared roll: \<^verbatim>\<open>isSuccess = sanCheckRoll <= currentSan\<close> for each
  character of the handler's closure.
\<close>

definition sanResults :: "character list \<Rightarrow> int \<Rightarrow> (character \<times> int \<times> bool) list" where
  "sanResults cs sanCheckRoll =
     map (\<lambda>character. (character, sanCheckRoll, sanCheckRoll \<le> current (san character))) cs"

text \<open>
  \<^verbatim>\<open>handleSanityCheck(roll, reason, 'all')\<close> with its nested callbacks. The results are
  computed from the characters of the closure; the updates act on the state after
  \<^verbatim>\<open>decrementMadnessDuration\<close>.
\<close>

definition handleSanityCheckAll :: "modal \<Rightarrow> game \<Rightarrow> string \<Rightarrow> game \<times> modal" where
  "handleSanityCheckAll m g roll =
     (let g0 = g\<lparr>lastFailedSkillCheck := None,
                 characters := decrementMadnessDuration (characters g)\<rparr>;
          first = diceRollRequest m ''1d100'';
          sanCheckRoll = fst first;
          m1 = snd first;
          rollParts = splitSlash roll;
          results = sanResults (characters g) sanCheckRoll
      in if length rollParts = 2 then
           (let hasSuccess = list_ex (\<lambda>r. snd (snd r)) results;
                hasFailure = list_ex (\<lambda>r. \<not> snd (snd r)) results
            in if hasSuccess \<and> hasFailure then
                 (let successRoll = rollParts ! 0;
                      failureRoll = rollParts ! 1;
                      successFixed = parseFixedOrRoll successRoll
                  in if successFixed \<ge> 0 then
                       (let failureFixed = parseFixedOrRoll failureRoll
                        in if failureFixed \<ge> 0
                           then processAllCharactersSanCheck g0 m1 results successFixed
                                  failureFixed
                           else (case diceRollRequest m1 failureRoll of
                                   (failureLoss, m2) \<Rightarrow>
                                     processAllCharactersSanCheck g0 m2 results successFixed
                                       failureLoss))
                     else
                       (case diceRollRequest m1 successRoll of
                          (successLoss, m2) \<Rightarrow>
                            let failureFixed = parseFixedOrRoll failureRoll
                            in if failureFixed \<ge> 0
                               then processAllCharactersSanCheck g0 m2 results successLoss
                                      failureFixed
                               else (case diceRollRequest m2 failureRoll of
                                       (failureLoss, m3) \<Rightarrow>
                                         processAllCharactersSanCheck g0 m3 results
                                           successLoss failureLoss)))
               else if hasSuccess then
                 (let successFixed = parseFixedOrRoll (rollParts ! 0)
                  in if successFixed \<ge> 0
                     then processAllCharactersSanCheck g0 m1 results successFixed 0
                     else (case diceRollRequest m1 (rollParts ! 0) of
                             (successLoss, m2) \<Rightarrow>
                               processAllCharactersSanCheck g0 m2 results successLoss 0))
               else
                 (let failureFixed = parseFixedOrRoll (rollParts ! 1)
                  in if failureFixed \<ge> 0
                     then processAllCharactersSanCheck g0 m1 results 0 failureFixed
                     else (case diceRollRequest m1 (rollParts ! 1) of
                             (failureLoss, m2) \<Rightarrow>
                               processAllCharactersSanCheck g0 m2 results 0 failureLoss)))
         else
           (let rollFixed = parseFixedOrRoll roll
            in if rollFixed \<ge> 0
               then processAllCharactersSanCheck g0 m1 results rollFixed rollFixed
               else (case diceRollRequest m1 roll of
                       (sanLoss, m2) \<Rightarrow>
                         processAllCharactersSanCheck g0 m2 results sanLoss sanLoss)))"

text \<open>
  The check of a single character. Both branches of the source, for a fixed loss and for
  a rolled one, run the same steps after the loss is known.
\<close>

definition handleSanityCheckSingle ::
  "modal \<Rightarrow> game \<Rightarrow> string \<Rightarrow> string \<Rightarrow> error + game \<times> modal" where
  "handleSanityCheckSingle m g roll characterId =
     (case findCharacter (characters g) characterId of
        None \<Rightarrow> Inl TypeError
      | Some character \<Rightarrow>
          let g0 = g\<lparr>lastFailedSkillCheck := None,
                     characters := decrementMadnessDuration (characters g)\<rparr>;
              currentSan = current (san character);
              first = diceRollRequest m ''1d100'';
              sanRoll = fst first;
              success = (sanRoll \<le> currentSan);
              rollParts = splitSlash roll;
              sanLossRoll = (if length rollParts = 2
                             then (if success then rollParts ! 0 else rollParts ! 1)
                             else roll);
              loss = fixedOrRolled (snd first) sanLossRoll;
              sanLoss = fst loss;
              newSan = max 0 (current (san character) - sanLoss);
              mr = checkForMadness (fst (snd loss)) character sanLoss;
              g1 = g0\<lparr>characters :=
                        updateCharacterState characterId (sanityUpdate newSan (fst mr))
                          (characters g0)\<rparr>;
              m' = (snd mr, snd (snd loss))
          in if newSan \<le> 0 then Inr (g1\<lparr>gameOver := True, isLoading := False\<rparr>, m')
             else Inr (handleSystemAction g1, m'))"

definition handleSanityCheck ::
  "modal \<Rightarrow> game \<Rightarrow> string \<Rightarrow> string \<Rightarrow> error + game \<times> modal" where
  "handleSanityCheck m g roll characterId =
     (if characterId = ''all'' then Inr (handleSanityCheckAll m g roll)
      else handleSanityCheckSingle m g roll characterId)"


subsection \<open>Madness onset\<close>


lemma mathRandom_range:
  assumes "\<forall>r\<in>set rs. 0 \<le> r \<and> r < 1"
  shows "0 \<le> fst (mathRandom rs) \<and> fst (mathRandom rs) < 1
         \<and> (\<forall>r\<in>set (snd (mathRandom rs)). 0 \<le> r \<and> r < 1)"
  using assms by (cases rs) (simp_all add: mathRandom_def)

lemma d6_range:
  fixes r :: rat
  assumes "0 \<le> r" "r < 1"
  shows "1 \<le> \<lfloor>r * 6\<rfloor> + 1 \<and> \<lfloor>r * 6\<rfloor> + 1 \<le> 6"
proof -
  have "0 \<le> \<lfloor>r * 6\<rfloor>" using assms by simp
  moreover have "\<lfloor>r * 6\<rfloor> < 6" using assms by (simp add: floor_less_iff)
  ultimately show ?thesis by simp
qed

lemma d6_interval:
  fixes r :: rat
  shows "(\<lfloor>r * 6\<rfloor> + 1 = k) = (of_int (k - 1) / 6 \<le> r \<and> r < of_int k / 6)"
proof -
  have "(\<lfloor>r * 6\<rfloor> + 1 = k) = (\<lfloor>r * 6\<rfloor> = k - 1)" by auto
  also have "\<dots> = (of_int (k - 1) \<le> r * 6 \<and> r * 6 < of_int (k - 1) + 1)"
    by (rule floor_eq_iff)
  also have "\<dots> = (of_int (k - 1) / 6 \<le> r \<and> r < of_int k / 6)"
    by (simp add: field_simps)
  finally show ?thesis .
qed

lemma pickSymptom_in_table:
  fixes r :: rat
  assumes "0 \<le> r" "r < 1" "table \<noteq> []"
  shows "pickSymptom table r \<in> set table"
proof -
  have a: "0 \<le> \<lfloor>r * of_nat (length table)\<rfloor>" using assms by simp
  have "r * of_nat (length table) < 1 * of_nat (length table)"
    using assms by (intro mult_strict_right_mono) simp_all
  then have b: "\<lfloor>r * of_nat (length table)\<rfloor> < int (length table)"
    by (simp add: floor_less_iff)
  from a b have "nat \<lfloor>r * of_nat (length table)\<rfloor> < length table" by linarith
  then have "table ! nat \<lfloor>r * of_nat (length table)\<rfloor> \<in> set table" by (rule nth_mem)
  with a b show ?thesis by (simp add: pickSymptom_def Let_def)
qed

lemma threshold_spec: "\<lceil>(of_int n :: rat) * (2 / 10)\<rceil> = (n + 4) div 5"
proof -
  have "(of_int n :: rat) * (2 / 10) = of_int n / of_int 5" by simp
  then have "\<lceil>(of_int n :: rat) * (2 / 10)\<rceil> = - ((- n) div 5)"
    by (simp only: ceiling_divide_eq_div)
  then show ?thesis by linarith
qed

lemma sanityUpdate_fields:
  "current (san (sanityUpdate newSan mr c)) = newSan"
  "maxv (san (sanityUpdate newSan mr c)) = maxv (san c)"
  "char_id (sanityUpdate newSan mr c) = char_id c"
  "madness (sanityUpdate newSan mr c) = (if mtype mr \<noteq> None then Some mr else madness c)"
  by (simp_all add: sanityUpdate_def)

lemma checkForMadness_indefinite:
  assumes "\<lceil>(of_int (maxv (san c)) :: rat) * (2 / 10)\<rceil> \<le> loss"
  shows "fst (checkForMadness rs c loss)
           = \<lparr>mtype = Some indefinite,
              description = pickSymptom INDEFINITE_MADNESS_SYMPTOMS (fst (mathRandom rs)),
              duration = None\<rparr>"
  using assms by (simp add: checkForMadness_def Let_def split: prod.splits)

lemma checkForMadness_temporary:
  assumes "loss < \<lceil>(of_int (maxv (san c)) :: rat) * (2 / 10)\<rceil>" and "5 \<le> loss"
  shows "fst (checkForMadness rs c loss)
           = \<lparr>mtype = Some temporary,
              description = pickSymptom TEMPORARY_MADNESS_SYMPTOMS (fst (mathRandom rs)),
              duration = Some (\<lfloor>fst (mathRandom (snd (mathRandom rs))) * 6\<rfloor> + 1)\<rparr>"
  using assms by (simp add: checkForMadness_def Let_def split: prod.splits)

lemma checkForMadness_none:
  assumes "loss < \<lceil>(of_int (maxv (san c)) :: rat) * (2 / 10)\<rceil>" and "loss < 5"
  shows "checkForMadness rs c loss = (\<lparr>mtype = None, description = [], duration = None\<rparr>, rs)"
  using assms by (simp add: checkForMadness_def Let_def)

text \<open>
  C4. Madness onset for a sanity loss, the random draws lying in the unit interval.
  When the loss is at least the ceiling of the SAN maximum times 0.2 (the same as the
  SAN maximum plus 4, divided by 5 and rounded down), the result is indefinite madness
  with a symptom of the indefinite table and no duration, and it replaces whatever
  madness the updated character had. Otherwise, when the loss is at least 5, the result
  is temporary madness with a symptom of the temporary table and a duration from 1 to 6,
  again replacing the old state; the duration is k exactly when the second draw lies in
  the k-th sixth of the unit interval. Otherwise no madness sets in and the update leaves
  the character's madness as it was.
\<close>

theorem C4_madness_onset:
  assumes "\<forall>r\<in>set rs. 0 \<le> r \<and> r < 1"
  shows
    "(\<lceil>(of_int (maxv (san c)) :: rat) * (2 / 10)\<rceil> \<le> loss \<longrightarrow>
        mtype (fst (checkForMadness rs c loss)) = Some indefinite
        \<and> duration (fst (checkForMadness rs c loss)) = None
        \<and> description (fst (checkForMadness rs c loss)) \<in> set INDEFINITE_MADNESS_SYMPTOMS
        \<and> madness (sanityUpdate newSan (fst (checkForMadness rs c loss)) c')
            = Some (fst (checkForMadness rs c loss)))
     \<and> (loss < \<lceil>(of_int (maxv (san c)) :: rat) * (2 / 10)\<rceil> \<and> 5 \<le> loss \<longrightarrow>
        mtype (fst (checkForMadness rs c loss)) = Some temporary
        \<and> (\<exists>d. duration (fst (checkForMadness rs c loss)) = Some d \<and> 1 \<le> d \<and> d \<le> 6)
        \<and> duration (fst (checkForMadness rs c loss))
            = Some (\<lfloor>fst (mathRandom (snd (mathRandom rs))) * 6\<rfloor> + 1)
        \<and> description (fst (checkForMadness rs c loss)) \<in> set TEMPORARY_MADNESS_SYMPTOMS
        \<and> madness (sanityUpdate newSan (fst (checkForMadness rs c loss)) c')
            = Some (fst (checkForMadness rs c loss)))
     \<and> (loss < \<lceil>(of_int (maxv (san c)) :: rat) * (2 / 10)\<rceil> \<and> loss < 5 \<longrightarrow>
        mtype (fst (checkForMadness rs c loss)) = None
        \<and> madness (sanityUpdate newSan (fst (checkForMadness rs c loss)) c') = madness c')
     \<and> \<lceil>(of_int (maxv (san c)) :: rat) * (2 / 10)\<rceil> = (maxv (san c) + 4) div 5
     \<and> ((\<lfloor>(r2 :: rat) * 6\<rfloor> + 1 = k) = (of_int (k - 1) / 6 \<le> r2 \<and> r2 < of_int k / 6))"
proof (intro conjI impI)
  note r = mathRandom_range [OF assms]
  from r have r1: "0 \<le> fst (mathRandom rs)" "fst (mathRandom rs) < 1" by simp_all
  from r have "\<forall>r\<in>set (snd (mathRandom rs)). 0 \<le> r \<and> r < 1" by simp
  from mathRandom_range [OF this]
  have r2: "0 \<le> fst (mathRandom (snd (mathRandom rs)))"
    "fst (mathRandom (snd (mathRandom rs))) < 1" by simp_all
  have ne1: "INDEFINITE_MADNESS_SYMPTOMS \<noteq> []"
    by (simp add: INDEFINITE_MADNESS_SYMPTOMS_def)
  have ne2: "TEMPORARY_MADNESS_SYMPTOMS \<noteq> []"
    by (simp add: TEMPORARY_MADNESS_SYMPTOMS_def)
  {
    assume a: "\<lceil>(of_int (maxv (san c)) :: rat) * (2 / 10)\<rceil> \<le> loss"
    note e = checkForMadness_indefinite [OF a, of rs]
    show "mtype (fst (checkForMadness rs c loss)) = Some indefinite" by (simp add: e)
    show "duration (fst (checkForMadness rs c loss)) = None" by (simp add: e)
    show "description (fst (checkForMadness rs c loss)) \<in> set INDEFINITE_MADNESS_SYMPTOMS"
      using pickSymptom_in_table [OF r1 ne1] by (simp add: e)
    show "madness (sanityUpdate newSan (fst (checkForMadness rs c loss)) c')
            = Some (fst (checkForMadness rs c loss))"
      by (simp add: sanityUpdate_fields e)
  }
  {
    assume a: "loss < \<lceil>(of_int (maxv (san c)) :: rat) * (2 / 10)\<rceil> \<and> 5 \<le> loss"
    then have a1: "loss < \<lceil>(of_int (maxv (san c)) :: rat) * (2 / 10)\<rceil>" and a2: "5 \<le> loss"
      by simp_all
    note e = checkForMadness_temporary [OF a1 a2, of rs]
    show "mtype (fst (checkForMadness rs c loss)) = Some temporary" by (simp add: e)
    show "\<exists>d. duration (fst (checkForMadness rs c loss)) = Some d \<and> 1 \<le> d \<and> d \<le> 6"
      using d6_range [OF r2] by (simp add: e)
    show "duration (fst (checkForMadness rs c loss))
            = Some (\<lfloor>fst (mathRandom (snd (mathRandom rs))) * 6\<rfloor> + 1)"
      by (simp add: e)
    show "description (fst (checkForMadness rs c loss)) \<in> set TEMPORARY_MADNESS_SYMPTOMS"
      using pickSymptom_in_table [OF r1 ne2] by (simp add: e)
    show "madness (sanityUpdate newSan (fst (checkForMadness rs c loss)) c')
            = Some (fst (checkForMadness rs c loss))"
      by (simp add: sanityUpdate_fields e)
  }
  {
    assume a: "loss < \<lceil>(of_int (maxv (san c)) :: rat) * (2 / 10)\<rceil> \<and> loss < 5"
    then have a1: "loss < \<lceil>(of_int (maxv (san c)) :: rat) * (2 / 10)\<rceil>" and a2: "loss < 5"
      by simp_all
    note e = checkForMadness_none [OF a1 a2, of rs]
    show "mtype (fst (checkForMadness rs c loss)) = None" by (simp add: e)
    show "madness (sanityUpdate newSan (fst (checkForMadness rs c loss)) c') = madness c'"
      by (simp add: sanityUpdate_fields e)
  }
  show "\<lceil>(of_int (maxv (san c)) :: rat) * (2 / 10)\<rceil> = (maxv (san c) + 4) div 5"
    by (rule threshold_spec)
  show "(\<lfloor>r2 * 6\<rfloor> + 1 = k) = (of_int (k - 1) / 6 \<le> r2 \<and> r2 < of_int k / 6)"
    by (rule d6_interval)
qed


theorem C4_madness_onset_witness:
  "(0::rat) \<le> 1 / 2 \<and> (1 / 2 :: rat) < 1 \<and> (0::rat) \<le> 1 / 3 \<and> (1 / 3 :: rat) < 1
   \<and> \<lceil>(of_int (maxv (san (createNewCharacter ''c1''))) :: rat) * (2 / 10)\<rceil> = 10
   \<and> fst (checkForMadness [1 / 2, 1 / 3] (createNewCharacter ''c1'') 20)
       = \<lparr>mtype = Some indefinite, description = ''indefinite symptom 4'', duration = None\<rparr>
   \<and> madness (sanityUpdate 30
                (fst (checkForMadness [1 / 2, 1 / 3] (createNewCharacter ''c1'') 20))
                (createNewCharacter ''c1''))
       = Some \<lparr>mtype = Some indefinite, description = ''indefinite symptom 4'',
               duration = None\<rparr>
   \<and> fst (checkForMadness [1 / 2, 1 / 3] (createNewCharacter ''c1'') 6)
       = \<lparr>mtype = Some temporary, description = ''temporary symptom 4'',
          duration = Some 3\<rparr>
   \<and> mtype (fst (checkForMadness [1 / 2, 1 / 3] (createNewCharacter ''c1'') 2)) = None
   \<and> madness (sanityUpdate 48
                (fst (checkForMadness [1 / 2, 1 / 3] (createNewCharacter ''c1'') 2))
                (createNewCharacter ''c1''))
       = madness (createNewCharacter ''c1'')"
proof -
  have h: "\<forall>r\<in>set [1 / 2, 1 / 3 :: rat]. 0 \<le> r \<and> r < 1" by simp
  have t: "\<lceil>(of_int (maxv (san (createNewCharacter ''c1''))) :: rat) * (2 / 10)\<rceil> = 10"
    by (simp add: createNewCharacter_def)
  note a = C4_madness_onset [OF h, of "createNewCharacter ''c1''" 20 30 "createNewCharacter ''c1''"]
  note b = C4_madness_onset [OF h, of "createNewCharacter ''c1''" 6 44 "createNewCharacter ''c1''"]
  note c = C4_madness_onset [OF h, of "createNewCharacter ''c1''" 2 48 "createNewCharacter ''c1''"]
  have e1: "fst (checkForMadness [1 / 2, 1 / 3] (createNewCharacter ''c1'') 20)
       = \<lparr>mtype = Some indefinite, description = ''indefinite symptom 4'', duration = None\<rparr>"
    by (simp add: checkForMadness_def createNewCharacter_def mathRandom_def pickSymptom_def
        INDEFINITE_MADNESS_SYMPTOMS_def)
  have e2: "fst (checkForMadness [1 / 2, 1 / 3] (createNewCharacter ''c1'') 6)
       = \<lparr>mtype = Some temporary, description = ''temporary symptom 4'',
          duration = Some 3\<rparr>"
    by (simp add: checkForMadness_def createNewCharacter_def mathRandom_def pickSymptom_def
        TEMPORARY_MADNESS_SYMPTOMS_def)
  from a t e1 have a': "madness (sanityUpdate 30
                (fst (checkForMadness [1 / 2, 1 / 3] (createNewCharacter ''c1'') 20))
                (createNewCharacter ''c1''))
       = Some \<lparr>mtype = Some indefinite, description = ''indefinite symptom 4'',
               duration = None\<rparr>"
    by simp
  from c t have c': "mtype (fst (checkForMadness [1 / 2, 1 / 3] (createNewCharacter ''c1'') 2)) = None
   \<and> madness (sanityUpdate 48
                (fst (checkForMadness [1 / 2, 1 / 3] (createNewCharacter ''c1'') 2))
                (createNewCharacter ''c1''))
       = madness (createNewCharacter ''c1'')"
    by simp
  from b t e2 have b': "duration (fst (checkForMadness [1 / 2, 1 / 3] (createNewCharacter ''c1'') 6))
      = Some 3" by simp
  show ?thesis using t e1 e2 a' b' c' by simp
qed


subsection \<open>The party-wide sanity check\<close>

text \<open>
  The new current SAN that one round of the loop computes for its entry.
\<close>

definition newSanOf :: "int \<Rightarrow> int \<Rightarrow> character \<times> int \<times> bool \<Rightarrow> int" where
  "newSanOf sl fl e = max 0 (current (san (fst e)) - (if snd (snd e) then sl else fl))"

lemma sanStep_chars:
  "fst (sanStep sl fl e st)
     = map (\<lambda>c. if char_id c = char_id (fst e)
                 then sanityUpdate (newSanOf sl fl e)
                        (fst (if (if snd (snd e) then sl else fl) > 0
                              then checkForMadness (fst (snd st)) (fst e)
                                     (if snd (snd e) then sl else fl)
                              else (\<lparr>mtype = None, description = [], duration = None\<rparr>,
                                    fst (snd st)))) c
                 else c) (fst st)"
  by (cases e; cases st)
     (simp add: sanStep_def Let_def updateCharacterState_def newSanOf_def)

lemma fold_sanStep_san:
  assumes "distinct (map (\<lambda>e. char_id (fst e)) es)"
  shows "map (\<lambda>x. (char_id x, current (san x))) (fst (fold (sanStep sl fl) es st))
         = map (\<lambda>x. (char_id x,
                      case List.find (\<lambda>e. char_id (fst e) = char_id x) es of
                        None \<Rightarrow> current (san x)
                      | Some e \<Rightarrow> newSanOf sl fl e)) (fst st)"
  using assms
proof (induction es arbitrary: st)
  case Nil
  then show ?case by simp
next
  case (Cons e es)
  from Cons.prems have d: "distinct (map (\<lambda>e. char_id (fst e)) es)"
    and n: "char_id (fst e) \<notin> (\<lambda>e. char_id (fst e)) ` set es" by simp_all
  have nf: "List.find (\<lambda>e'. char_id (fst e') = char_id (fst e)) es = None"
    using n by (force simp: find_None_iff image_iff)
  show ?case
    apply (simp only: fold_simps Cons.IH [OF d])
    apply (simp only: sanStep_chars map_map o_def)
    apply (rule map_cong [OF refl])
    apply (auto simp: sanityUpdate_fields nf)
    done
qed


lemma find_sanResults:
  assumes "distinct (map char_id cs)" and "c \<in> set cs"
  shows "List.find (\<lambda>e. char_id (fst e) = char_id c) (sanResults cs r)
           = Some (c, r, r \<le> current (san c))"
  using assms
proof (induction cs)
  case Nil
  then show ?case by simp
next
  case (Cons a cs)
  show ?case
  proof (cases "a = c")
    case True
    then show ?thesis by (simp add: sanResults_def)
  next
    case False
    with Cons.prems have "c \<in> set cs" and "char_id a \<noteq> char_id c" by auto
    with Cons show ?thesis by (simp add: sanResults_def)
  qed
qed

lemma sanResults_ids: "map (\<lambda>e. char_id (fst e)) (sanResults cs r) = map char_id cs"
  by (simp add: sanResults_def o_def)

lemma party_san_values:
  assumes "distinct (map char_id cs)"
  shows "map (\<lambda>x. (char_id x, current (san x)))
           (fst (fold (sanStep sl fl) (sanResults cs r)
                   (decrementMadnessDuration cs, rs, False, None)))
         = map (\<lambda>c. (char_id c,
                      max 0 (current (san c) - (if r \<le> current (san c) then sl else fl)))) cs"
proof -
  have d: "distinct (map (\<lambda>e. char_id (fst e)) (sanResults cs r))"
    using assms by (simp add: sanResults_ids)
  show ?thesis
    apply (simp only: fold_sanStep_san [OF d] fst_conv decrementMadnessDuration_def map_map o_def)
    apply (rule map_cong [OF refl])
    apply (simp add: find_sanResults [OF assms] newSanOf_def)
    done
qed

lemma processAll_characters:
  "characters (fst (processAllCharactersSanCheck g0 m' results sl fl))
     = fst (fold (sanStep sl fl) results (characters g0, fst m', False, None))"
  by (simp add: processAllCharactersSanCheck_def handleSystemAction_def split: prod.splits)

lemma processAll_log:
  "snd (snd (processAllCharactersSanCheck g0 m' results sl fl)) = snd m'"
  by (simp add: processAllCharactersSanCheck_def split: prod.splits)

lemma diceRollRequest_log: "snd (snd (diceRollRequest m n)) = snd m @ [n]"
  by (simp add: diceRollRequest_def split: prod.splits)

text \<open>
  The dice requests that may follow the shared roll: at most one for the success
  notation and at most one for the failure notation, or at most one for a notation
  without a slash.
\<close>

definition allowedRequests :: "string \<Rightarrow> string list \<Rightarrow> bool" where
  "allowedRequests roll extra =
     (if length (splitSlash roll) = 2
      then extra \<in> {[], [splitSlash roll ! 0], [splitSlash roll ! 1],
                    [splitSlash roll ! 0, splitSlash roll ! 1]}
      else extra \<in> {[], [roll]})"

lemma all_log:
  "\<exists>extra. snd (snd (handleSanityCheckAll m g roll)) = snd m @ ''1d100'' # extra
           \<and> allowedRequests roll extra"
proof -
  have a: "\<exists>extra. snd (snd (processAllCharactersSanCheck g0 m' results sl fl))
                     = snd m @ ''1d100'' # extra \<and> allowedRequests roll extra"
    if "snd m' = snd m @ ''1d100'' # e" "allowedRequests roll e" for g0 m' results sl fl e
    using that by (simp add: processAll_log)
  show ?thesis
    unfolding handleSanityCheckAll_def Let_def
    apply (simp split: prod.splits add: processAll_log)
    apply (auto simp: allowedRequests_def dest!: arg_cong [where f = "\<lambda>x. snd (snd x)"]
                simp: diceRollRequest_log)
    done
qed

lemma list_ex_sanResults:
  "list_ex (\<lambda>e. snd (snd e)) (sanResults cs r) = list_ex (\<lambda>c. r \<le> current (san c)) cs"
  "list_ex (\<lambda>e. \<not> snd (snd e)) (sanResults cs r) = list_ex (\<lambda>c. \<not> r \<le> current (san c)) cs"
  by (simp_all add: sanResults_def list_ex_iff)

lemma all_explicit:
  fixes m :: modal and g :: game and roll :: string
  defines "first \<equiv> diceRollRequest m ''1d100''"
    and "parts \<equiv> splitSlash roll"
  defines "anySuccess \<equiv> list_ex (\<lambda>c. fst first \<le> current (san c)) (characters g)"
    and "anyFailure \<equiv> list_ex (\<lambda>c. \<not> fst first \<le> current (san c)) (characters g)"
  defines "s \<equiv> (if length parts = 2
                  then (if anySuccess then fixedOrRolled (snd first) (parts ! 0)
                        else (0, snd first))
                  else fixedOrRolled (snd first) roll)"
  defines "f \<equiv> (if length parts = 2
                  then (if anySuccess \<and> \<not> anyFailure then (0, snd s)
                        else fixedOrRolled (snd s) (parts ! 1))
                  else s)"
  shows "handleSanityCheckAll m g roll
         = processAllCharactersSanCheck
             (g\<lparr>lastFailedSkillCheck := None,
                characters := decrementMadnessDuration (characters g)\<rparr>)
             (snd f) (sanResults (characters g) (fst first)) (fst s) (fst f)"
  unfolding handleSanityCheckAll_def f_def s_def anySuccess_def anyFailure_def parts_def
    first_def
  by (simp add: Let_def list_ex_sanResults fixedOrRolled_def split: prod.splits)


text \<open>
  C5. In a party-wide sanity check of characters with distinct ids, one roll of 1d100,
  the first dice request, decides for every member: success when the roll is at most
  the member's current SAN. The loss of those who succeeded is the value of the success
  notation (the part before the slash, or the whole notation when there is no slash),
  evaluated once after the shared roll; with a slash it is evaluated only when somebody
  succeeded. The loss of those who failed is the value of the failure notation,
  evaluated once after that; with a slash it is left out only when everybody succeeded,
  and without a slash it is the same single evaluation as for success. A notation that
  is a bare integer has that value and is not rolled; any other goes to the dice modal
  once. So after the shared roll the modal is asked at most once for each notation,
  however many characters there are, and every member's new current SAN is the larger
  of 0 and the old value minus the loss of the member's branch.
\<close>

theorem C5_party_sanity_check:
  fixes m :: modal and g :: game and roll :: string
  defines "first \<equiv> diceRollRequest m ''1d100''"
    and "parts \<equiv> splitSlash roll"
  defines "anySuccess \<equiv> list_ex (\<lambda>c. fst first \<le> current (san c)) (characters g)"
    and "anyFailure \<equiv> list_ex (\<lambda>c. \<not> fst first \<le> current (san c)) (characters g)"
  defines "s \<equiv> (if length parts = 2
                  then (if anySuccess then fixedOrRolled (snd first) (parts ! 0)
                        else (0, snd first))
                  else fixedOrRolled (snd first) roll)"
  defines "f \<equiv> (if length parts = 2
                  then (if anySuccess \<and> \<not> anyFailure then (0, snd s)
                        else fixedOrRolled (snd s) (parts ! 1))
                  else s)"
  assumes d: "distinct (map char_id (characters g))"
  shows "\<exists>g' rs' extra.
           handleSanityCheck m g roll ''all'' = Inr (g', (rs', snd (snd f)))
           \<and> fst first = fst (parseAndRoll (fst m) ''1d100'')
           \<and> snd (snd f) = snd m @ ''1d100'' # extra
           \<and> (if length parts = 2
               then extra \<in> {[], [parts ! 0], [parts ! 1], [parts ! 0, parts ! 1]}
               else extra \<in> {[], [roll]})
           \<and> map (\<lambda>x. (char_id x, current (san x))) (characters g')
               = map (\<lambda>c. (char_id c,
                            max 0 (current (san c)
                                   - (if fst first \<le> current (san c)
                                      then fst s else fst f))))
                     (characters g)"
proof -
  let ?g0 = "g\<lparr>lastFailedSkillCheck := None,
                characters := decrementMadnessDuration (characters g)\<rparr>"
  let ?res = "processAllCharactersSanCheck ?g0 (snd f)
                (sanResults (characters g) (fst first)) (fst s) (fst f)"
  have eq: "handleSanityCheckAll m g roll = ?res"
    unfolding f_def s_def anySuccess_def anyFailure_def parts_def first_def
    by (rule all_explicit)
  have lg: "snd (snd ?res) = snd (snd f)"
    by (rule processAll_log)
  from all_log [of m g roll] obtain extra
    where e1: "snd (snd (handleSanityCheckAll m g roll)) = snd m @ ''1d100'' # extra"
      and e2: "allowedRequests roll extra"
    by blast
  from e1 eq lg have l1: "snd (snd f) = snd m @ ''1d100'' # extra" by simp
  from e2 have l2: "if length parts = 2
               then extra \<in> {[], [parts ! 0], [parts ! 1], [parts ! 0, parts ! 1]}
               else extra \<in> {[], [roll]}"
    unfolding allowedRequests_def parts_def by (auto split: if_splits)
  have r: "fst first = fst (parseAndRoll (fst m) ''1d100'')"
    by (simp add: first_def diceRollRequest_def split: prod.splits)
  have c: "characters ?g0 = decrementMadnessDuration (characters g)" by simp
  have ch: "map (\<lambda>x. (char_id x, current (san x))) (characters (fst ?res))
               = map (\<lambda>c. (char_id c,
                            max 0 (current (san c)
                                   - (if fst first \<le> current (san c)
                                      then fst s else fst f))))
                     (characters g)"
    by (simp only: processAll_characters c party_san_values [OF d])
  have h: "handleSanityCheck m g roll ''all''
             = Inr (fst ?res, (fst (snd ?res), snd (snd f)))"
    using eq lg by (simp add: handleSanityCheck_def prod_eq_iff)
  from h r l1 l2 ch show ?thesis by blast
qed


theorem C5_party_sanity_check_witness:
  "distinct (map char_id (characters
      (startedGame [createNewCharacter ''c1'',
                    (createNewCharacter ''c2'')\<lparr>san := \<lparr>current = 20, maxv = 50\<rparr>\<rparr>])))
   \<and> diceRollRequest ([3 / 10, 5 / 6], []) ''1d100'' = (31, ([5 / 6], [''1d100'']))
   \<and> fixedOrRolled ([5 / 6], [''1d100'']) ''2'' = (2, ([5 / 6], [''1d100'']))
   \<and> fixedOrRolled ([5 / 6], [''1d100'']) ''1d6'' = (6, ([], [''1d100'', ''1d6'']))
   \<and> (\<exists>g' rs'.
         handleSanityCheck ([3 / 10, 5 / 6], [])
           (startedGame [createNewCharacter ''c1'',
                         (createNewCharacter ''c2'')\<lparr>san := \<lparr>current = 20, maxv = 50\<rparr>\<rparr>])
           ''2/1d6'' ''all'' = Inr (g', (rs', [''1d100'', ''1d6'']))
         \<and> map (\<lambda>x. (char_id x, current (san x))) (characters g')
             = [(''c1'', 48), (''c2'', 14)])"
proof -
  have h: "distinct (map char_id (characters
      (startedGame [createNewCharacter ''c1'',
                    (createNewCharacter ''c2'')\<lparr>san := \<lparr>current = 20, maxv = 50\<rparr>\<rparr>])))"
    by (simp add: startedGame_def createNewCharacter_def)
  have f1: "diceRollRequest ([3 / 10, 5 / 6], []) ''1d100'' = (31, ([5 / 6], [''1d100'']))"
    by code_simp
  have f2: "splitSlash ''2/1d6'' = [''2'', ''1d6'']"
    by code_simp
  have f4: "fixedOrRolled ([5 / 6], [''1d100'']) ''2'' = (2, ([5 / 6], [''1d100'']))"
    by code_simp
  have f5: "fixedOrRolled ([5 / 6], [''1d100'']) ''1d6'' = (6, ([], [''1d100'', ''1d6'']))"
    by code_simp
  have cs: "characters
      (startedGame [createNewCharacter ''c1'',
                    (createNewCharacter ''c2'')\<lparr>san := \<lparr>current = 20, maxv = 50\<rparr>\<rparr>])
      = [createNewCharacter ''c1'',
         (createNewCharacter ''c2'')\<lparr>san := \<lparr>current = 20, maxv = 50\<rparr>\<rparr>]"
    by (simp add: startedGame_def)
  have sv: "current (san (createNewCharacter ''c1'')) = 50"
    "char_id (createNewCharacter ''c1'') = ''c1''"
    "char_id (createNewCharacter ''c2'') = ''c2''"
    by (simp_all add: createNewCharacter_def)
  note t = C5_party_sanity_check [OF h, of "([3 / 10, 5 / 6], [])" "''2/1d6''"]
  from t have "\<exists>g'. (\<exists>rs'.
         handleSanityCheck ([3 / 10, 5 / 6], [])
           (startedGame [createNewCharacter ''c1'',
                         (createNewCharacter ''c2'')\<lparr>san := \<lparr>current = 20, maxv = 50\<rparr>\<rparr>])
           ''2/1d6'' ''all'' = Inr (g', (rs', [''1d100'', ''1d6''])))
         \<and> fst (parseAndRoll [3 / 10, 5 / 6] ''1d100'') = 31
         \<and> map (\<lambda>x. (char_id x, current (san x))) (characters g')
             = [(''c1'', 48), (''c2'', 14)]"
    unfolding f1 f2 cs by (simp add: f4 f5 sv)
  then obtain g1 rs1 where
      o1: "handleSanityCheck ([3 / 10, 5 / 6], [])
           (startedGame [createNewCharacter ''c1'',
                         (createNewCharacter ''c2'')\<lparr>san := \<lparr>current = 20, maxv = 50\<rparr>\<rparr>])
           ''2/1d6'' ''all'' = Inr (g1, (rs1, [''1d100'', ''1d6'']))"
      and o2: "map (\<lambda>x. (char_id x, current (san x))) (characters g1)
             = [(''c1'', 48), (''c2'', 14)]"
    by (elim exE conjE)
  have "\<exists>g' rs'.
         handleSanityCheck ([3 / 10, 5 / 6], [])
           (startedGame [createNewCharacter ''c1'',
                         (createNewCharacter ''c2'')\<lparr>san := \<lparr>current = 20, maxv = 50\<rparr>\<rparr>])
           ''2/1d6'' ''all'' = Inr (g', (rs', [''1d100'', ''1d6'']))
         \<and> map (\<lambda>x. (char_id x, current (san x))) (characters g')
             = [(''c1'', 48), (''c2'', 14)]"
    using o1 o2 by (intro exI conjI)
  with h f1 f4 f5 show ?thesis by (intro conjI)
qed

end
